theory Spec2Isabelle
  imports Complex_Main
begin

section \<open>Text: the string operations the agent uses\<close>

text \<open>
  A JavaScript string is modelled by the bytes of its UTF-8 encoding: one \<open>char\<close> for an
  ASCII character, two to four \<open>char\<close>s from \<open>0x80\<close> up for any other, an unpaired
  surrogate by the three bytes that the same scheme gives it. The keywords,
  character classes and literals of the agent are ASCII, and an ASCII byte occurs in an
  encoding only as the character itself, so \<open>includes\<close>, the character classes and the
  literals of the regular expressions are read byte by byte. The characters outside ASCII
  that JavaScript treats in a way of their own are given by their encodings: the white
  space of \<open>\s\<close> and \<open>trim\<close>, the line terminators that \<open>.\<close> excludes, and the two characters
  with an ASCII letter in their lower case.
\<close>

text \<open>
  The lower case of an ASCII character. It is also how a letter of a regular expression
  under the \<open>i\<close> flag, without the \<open>u\<close> flag, is compared: such a letter matches itself in
  either case and no character outside ASCII.
\<close>

definition toLowerChar :: "char \<Rightarrow> char" where
  "toLowerChar c =
     (case map_of (zip ''ABCDEFGHIJKLMNOPQRSTUVWXYZ'' ''abcdefghijklmnopqrstuvwxyz'') c of
        Some d \<Rightarrow> d
      | None \<Rightarrow> c)"

text \<open>
  \<open>s.toLowerCase()\<close>. The letters \<open>A\<close>..\<open>Z\<close> become \<open>a\<close>..\<open>z\<close>; the character \<open>U+0130\<close>, bytes
  \<open>C4 B0\<close>, becomes \<open>i\<close> followed by \<open>U+0307\<close>, bytes \<open>CC 87\<close>; the Kelvin sign \<open>U+212A\<close>,
  bytes \<open>E2 84 AA\<close>, becomes \<open>k\<close>. No other character has an ASCII character in its lower
  case, and none has an empty one. The lower case of the remaining characters outside
  ASCII is not worked out: they are kept as they are and stand for characters outside
  ASCII either way. The agent looks in the result for ASCII keywords and for the ASCII
  keys of its phrase table, which such a character is no part of.
\<close>

fun toLowerCase :: "string \<Rightarrow> string" where
  "toLowerCase (a # b # c # s) =
     (if a = CHR 0xC4 \<and> b = CHR 0xB0 then
        CHR ''i'' # CHR 0xCC # CHR 0x87 # toLowerCase (c # s)
      else if a = CHR 0xE2 \<and> b = CHR 0x84 \<and> c = CHR 0xAA then CHR ''k'' # toLowerCase s
      else toLowerChar a # toLowerCase (b # c # s))"
| "toLowerCase [a, b] =
     (if a = CHR 0xC4 \<and> b = CHR 0xB0 then [CHR ''i'', CHR 0xCC, CHR 0x87]
      else [toLowerChar a, toLowerChar b])"
| "toLowerCase [a] = [toLowerChar a]"
| "toLowerCase [] = []"

declare toLowerCase.simps [simp del]

text \<open>
  The number of bytes of the character that a string begins with, as its first byte tells:
  one for an ASCII character, two from \<open>0xC0\<close>, three from \<open>0xE0\<close>, four from \<open>0xF0\<close>.
\<close>

definition charLength :: "string \<Rightarrow> nat" where
  "charLength s =
     (case s of
        [] \<Rightarrow> 0
      | c # cs \<Rightarrow>
          if (of_char c :: nat) < 0xC0 then 1
          else if (of_char c :: nat) < 0xE0 then 2
          else if (of_char c :: nat) < 0xF0 then 3
          else 4)"

text \<open>\<open>startsWith s k\<close>: the string \<open>s\<close> begins with \<open>k\<close>.\<close>

fun startsWith :: "string \<Rightarrow> string \<Rightarrow> bool" where
  "startsWith s [] = True"
| "startsWith [] (k # ks) = False"
| "startsWith (c # cs) (k # ks) = (c = k \<and> startsWith cs ks)"

text \<open>\<open>includes_str s k\<close> is \<open>s.includes(k)\<close>: \<open>k\<close> occurs in \<open>s\<close> as a substring.\<close>

fun includes_str :: "string \<Rightarrow> string \<Rightarrow> bool" where
  "includes_str [] k = (k = [])"
| "includes_str (c # cs) k = (startsWith (c # cs) k \<or> includes_str cs k)"

definition isDigit :: "char \<Rightarrow> bool" where
  "isDigit c = (c \<in> set ''0123456789'')"

definition isOperatorChar :: "char \<Rightarrow> bool" where
  "isOperatorChar c = (c \<in> set ''+-*/()'')"

text \<open>
  The white space of \<open>\s\<close> and \<open>trim\<close>: TAB, LF, VT, FF, CR, the space, and
  \<open>U+00A0\<close>, \<open>U+1680\<close>, \<open>U+2000\<close> to \<open>U+200A\<close>, \<open>U+2028\<close>, \<open>U+2029\<close>, \<open>U+202F\<close>,
  \<open>U+205F\<close>, \<open>U+3000\<close> and \<open>U+FEFF\<close>.
\<close>

definition whiteSpaces :: "string list" where
  "whiteSpaces =
     [[CHR 0x09], [CHR 0x0A], [CHR 0x0B], [CHR 0x0C], [CHR 0x0D], [CHR 0x20],
      [CHR 0xC2, CHR 0xA0],
      [CHR 0xE1, CHR 0x9A, CHR 0x80],
      [CHR 0xE2, CHR 0x80, CHR 0x80], [CHR 0xE2, CHR 0x80, CHR 0x81],
      [CHR 0xE2, CHR 0x80, CHR 0x82], [CHR 0xE2, CHR 0x80, CHR 0x83],
      [CHR 0xE2, CHR 0x80, CHR 0x84], [CHR 0xE2, CHR 0x80, CHR 0x85],
      [CHR 0xE2, CHR 0x80, CHR 0x86], [CHR 0xE2, CHR 0x80, CHR 0x87],
      [CHR 0xE2, CHR 0x80, CHR 0x88], [CHR 0xE2, CHR 0x80, CHR 0x89],
      [CHR 0xE2, CHR 0x80, CHR 0x8A],
      [CHR 0xE2, CHR 0x80, CHR 0xA8], [CHR 0xE2, CHR 0x80, CHR 0xA9],
      [CHR 0xE2, CHR 0x80, CHR 0xAF],
      [CHR 0xE2, CHR 0x81, CHR 0x9F],
      [CHR 0xE3, CHR 0x80, CHR 0x80],
      [CHR 0xEF, CHR 0xBB, CHR 0xBF]]"

text \<open>The line terminators: LF, CR, \<open>U+2028\<close> and \<open>U+2029\<close>.\<close>

definition lineTerminators :: "string list" where
  "lineTerminators =
     [[CHR 0x0A], [CHR 0x0D], [CHR 0xE2, CHR 0x80, CHR 0xA8], [CHR 0xE2, CHR 0x80, CHR 0xA9]]"

text \<open>
  \<open>prefixLength ws s\<close>: the number of bytes of the character of \<open>ws\<close> that \<open>s\<close> begins with,
  0 when it begins with none.
\<close>

definition prefixLength :: "string list \<Rightarrow> string \<Rightarrow> nat" where
  "prefixLength ws s = (case find (startsWith s) ws of Some w \<Rightarrow> length w | None \<Rightarrow> 0)"

text \<open>\<open>dropLeading ws s\<close>: \<open>s\<close> without the characters of \<open>ws\<close> it begins with.\<close>

fun dropLeading :: "string list \<Rightarrow> string \<Rightarrow> string" where
  "dropLeading ws [] = []"
| "dropLeading ws (c # cs) =
     (if prefixLength ws (c # cs) = 0 then c # cs
      else dropLeading ws (drop (prefixLength ws (c # cs) - 1) cs))"

definition isWordChar :: "char \<Rightarrow> bool" where
  "isWordChar c =
     (c \<in> set ''abcdefghijklmnopqrstuvwxyzABCDEFGHIJKLMNOPQRSTUVWXYZ0123456789_'')"

section \<open>Content detection\<close>

definition greetings :: "string list" where
  "greetings = [''hello'', ''hi'', ''hey'', ''good morning'', ''good afternoon'', ''good evening'']"

definition isGreeting :: "string \<Rightarrow> bool" where
  "isGreeting text = list_ex (\<lambda>greeting. includes_str (toLowerCase text) greeting) greetings"

definition mathKeywords :: "string list" where
  "mathKeywords = [''calculate'', ''math'', ''compute'', ''solve'', ''what is'', ''='']"

definition hasMathKeywords :: "string \<Rightarrow> bool" where
  "hasMathKeywords text = list_ex (\<lambda>keyword. includes_str (toLowerCase text) keyword) mathKeywords"

definition hasNumbers :: "string \<Rightarrow> bool" where
  "hasNumbers text = list_ex isDigit text"

definition hasOperators :: "string \<Rightarrow> bool" where
  "hasOperators text = list_ex isOperatorChar text"

definition isCalculation :: "string \<Rightarrow> bool" where
  "isCalculation text = (hasMathKeywords text \<or> (hasNumbers text \<and> hasOperators text))"

definition isWeatherRequest :: "string \<Rightarrow> bool" where
  "isWeatherRequest text = includes_str (toLowerCase text) ''weather''"

definition translationKeywords :: "string list" where
  "translationKeywords = [''translate'', ''translation'', ''say in'', ''how do you say'']"

definition isTranslationRequest :: "string \<Rightarrow> bool" where
  "isTranslationRequest text =
     list_ex (\<lambda>keyword. includes_str (toLowerCase text) keyword) translationKeywords"

definition isStreamingRequest :: "string \<Rightarrow> bool" where
  "isStreamingRequest text = includes_str (toLowerCase text) ''stream''"

definition isPushNotificationRequest :: "string \<Rightarrow> bool" where
  "isPushNotificationRequest text = includes_str (toLowerCase text) ''push notification''"

text \<open>
  The routing chain of \<open>handleTask\<close>, read as a function from the text to the handler
  it selects.
\<close>

datatype intent =
  Greeting | Calculation | Weather | Translation | Streaming | PushNotification | General

definition classify :: "string \<Rightarrow> intent" where
  "classify userText =
     (if isGreeting userText then Greeting
      else if isCalculation userText then Calculation
      else if isWeatherRequest userText then Weather
      else if isTranslationRequest userText then Translation
      else if isStreamingRequest userText then Streaming
      else if isPushNotificationRequest userText then PushNotification
      else General)"

section \<open>Regular expressions of the handlers\<close>

text \<open>
  Each regular expression of the source is written out as the matcher it denotes. A matcher
  takes the text at a start position and returns what follows the match, or \<open>None\<close>.
\<close>

text \<open>A literal keyword under the \<open>i\<close> flag; the keyword is given in lower case.\<close>

fun match_ci :: "string \<Rightarrow> string \<Rightarrow> string option" where
  "match_ci [] s = Some s"
| "match_ci (k # ks) [] = None"
| "match_ci (k # ks) (c # cs) = (if toLowerChar c = k then match_ci ks cs else None)"

text \<open>\<open>\s+\<close>: the longest run of white space, at least one character.\<close>

definition match_spaces :: "string \<Rightarrow> string option" where
  "match_spaces s =
     (if prefixLength whiteSpaces s = 0 then None else Some (dropLeading whiteSpaces s))"

text \<open>An alternation followed by the rest of the pattern: the first alternative that matches.\<close>

fun first_match :: "('a \<Rightarrow> 'b option) \<Rightarrow> 'a list \<Rightarrow> 'b option" where
  "first_match f [] = None"
| "first_match f (x # xs) = (case f x of Some y \<Rightarrow> Some y | None \<Rightarrow> first_match f xs)"

text \<open>
  \<open>.*?\<close> followed by the pattern \<open>p\<close>: the fewest characters, none of them a line
  terminator, after which \<open>p\<close> matches.
\<close>

fun lazy_any :: "(string \<Rightarrow> string option) \<Rightarrow> string \<Rightarrow> string option" where
  "lazy_any p [] = p []"
| "lazy_any p (c # cs) =
     (case p (c # cs) of
        Some r \<Rightarrow> Some r
      | None \<Rightarrow>
          if prefixLength lineTerminators (c # cs) = 0
          then lazy_any p (drop (charLength (c # cs) - 1) cs)
          else None)"

text \<open>
  \<open>s.replace(re, "")\<close> for a regular expression without the \<open>g\<close> flag: the leftmost
  match is removed, the text is unchanged when there is none. The positions tried are
  the starts of the characters, from left to right.
\<close>

fun replace_first :: "(string \<Rightarrow> string option) \<Rightarrow> string \<Rightarrow> string" where
  "replace_first m [] = (case m [] of Some r \<Rightarrow> r | None \<Rightarrow> [])"
| "replace_first m (c # cs) =
     (case m (c # cs) of
        Some r \<Rightarrow> r
      | None \<Rightarrow>
          c # take (charLength (c # cs) - 1) cs
            @ replace_first m (drop (charLength (c # cs) - 1) cs))"

text \<open>\<open>s.match(re)\<close>: the result of the matcher at the leftmost position where it succeeds.\<close>

fun search :: "(string \<Rightarrow> 'a option) \<Rightarrow> string \<Rightarrow> 'a option" where
  "search m [] = m []"
| "search m (c # cs) =
     (case m (c # cs) of
        Some r \<Rightarrow> Some r
      | None \<Rightarrow> search m (drop (charLength (c # cs) - 1) cs))"

text \<open>
  \<open>s.trim()\<close>: the white space is removed at the start and, read backwards, at the end.
\<close>

definition trim :: "string \<Rightarrow> string" where
  "trim s = rev (dropLeading (map rev whiteSpaces) (rev (dropLeading whiteSpaces s)))"

text \<open>\<open>/.*?(calculate|math|compute|solve|what is)\s+/i\<close>\<close>

definition triggerWords :: "string list" where
  "triggerWords = [''calculate'', ''math'', ''compute'', ''solve'', ''what is'']"

definition match_trigger :: "string \<Rightarrow> string option" where
  "match_trigger s =
     first_match (\<lambda>w. Option.bind (match_ci w s) match_spaces) triggerWords"

definition calcTriggerRegex :: "string \<Rightarrow> string option" where
  "calcTriggerRegex = lazy_any match_trigger"

text \<open>\<open>/[^0-9+\-*/().]/g\<close> replaced by the empty string keeps exactly these characters.\<close>

definition isExpressionChar :: "char \<Rightarrow> bool" where
  "isExpressionChar c = (c \<in> set ''0123456789+-*/().'')"

definition extractExpression :: "string \<Rightarrow> string" where
  "extractExpression userText = filter isExpressionChar (replace_first calcTriggerRegex userText)"

text \<open>\<open>/.*?weather\s+(?:in\s+)?/i\<close>\<close>

definition match_in :: "string \<Rightarrow> string option" where
  "match_in s = Option.bind (match_ci ''in'' s) match_spaces"

definition match_weather :: "string \<Rightarrow> string option" where
  "match_weather s =
     Option.bind (match_ci ''weather'' s) (\<lambda>r.
     Option.bind (match_spaces r) (\<lambda>r2.
       case match_in r2 of Some r3 \<Rightarrow> Some r3 | None \<Rightarrow> Some r2))"

definition weatherRegex :: "string \<Rightarrow> string option" where
  "weatherRegex = lazy_any match_weather"

definition extractLocation :: "string \<Rightarrow> string" where
  "extractLocation userText = trim (replace_first weatherRegex userText)"

text \<open>
  \<open>/translate\s+['"]([^'"]+)['"]\s+to\s+(\w+)/i\<close>, returning the two capture groups.
\<close>

definition isQuote :: "char \<Rightarrow> bool" where
  "isQuote c = (c \<in> {CHR 0x27, CHR 0x22})"

fun match_quote :: "string \<Rightarrow> string option" where
  "match_quote [] = None"
| "match_quote (c # cs) = (if isQuote c then Some cs else None)"

definition match_translate :: "string \<Rightarrow> (string \<times> string) option" where
  "match_translate s =
     Option.bind (match_ci ''translate'' s) (\<lambda>r1.
     Option.bind (match_spaces r1) (\<lambda>r2.
     Option.bind (match_quote r2) (\<lambda>r3.
       let quoted = takeWhile (\<lambda>c. \<not> isQuote c) r3 in
       if quoted = [] then None
       else
         Option.bind (match_quote (dropWhile (\<lambda>c. \<not> isQuote c) r3)) (\<lambda>r4.
         Option.bind (match_spaces r4) (\<lambda>r5.
         Option.bind (match_ci ''to'' r5) (\<lambda>r6.
         Option.bind (match_spaces r6) (\<lambda>r7.
           let lang = takeWhile isWordChar r7 in
           if lang = [] then None else Some (quoted, lang))))))))"

definition translationRegex :: "string \<Rightarrow> (string \<times> string) option" where
  "translationRegex = search match_translate"

section \<open>Values, results and events\<close>

text \<open>
  A JavaScript value as far as the agent's metadata needs it. \<open>JNum\<close> carries an integer
  number; a value of any other kind (a fraction, \<open>Infinity\<close>, \<open>NaN\<close>, a function, a
  \<open>RegExp\<close>) is \<open>JOther\<close> with the text that \<open>String(v)\<close> gives for it.
\<close>

datatype jsval =
  JNum int
| JStr string
| JBool bool
| JUndefined
| JNull
| JOther string
| JObj "(string \<times> jsval) list"

type_synonym metadata = "(string \<times> jsval) list"

function showNat :: "nat \<Rightarrow> string" where
  "showNat n =
     (if n < 10 then [''0123456789'' ! n]
      else showNat (n div 10) @ [''0123456789'' ! (n mod 10)])"
  by pat_completeness auto
termination
  by (relation "measure id") auto

declare showNat.simps [simp del]

definition showInt :: "int \<Rightarrow> string" where
  "showInt i = (if i < 0 then ''-'' @ showNat (nat (- i)) else showNat (nat i))"

text \<open>The text a template literal inserts for a value.\<close>

fun js_toString :: "jsval \<Rightarrow> string" where
  "js_toString (JNum i) = showInt i"
| "js_toString (JStr s) = s"
| "js_toString (JBool b) = (if b then ''true'' else ''false'')"
| "js_toString JUndefined = ''undefined''"
| "js_toString JNull = ''null''"
| "js_toString (JOther s) = s"
| "js_toString (JObj kvs) = ''[object Object]''"

text \<open>The truth value that a condition gives a value.\<close>

fun isTruthy :: "jsval \<Rightarrow> bool" where
  "isTruthy (JNum i) = (i \<noteq> 0)"
| "isTruthy (JStr s) = (s \<noteq> [])"
| "isTruthy (JBool b) = b"
| "isTruthy JUndefined = False"
| "isTruthy JNull = False"
| "isTruthy (JOther s) = (s \<noteq> ''NaN'')"
| "isTruthy (JObj kvs) = True"

text \<open>A thrown value: an \<open>Error\<close> instance with its message, or any other value.\<close>

datatype thrown = ErrorInstance string | NonError jsval

datatype part = TextPart string | OtherPart string

datatype task_state =
  Submitted | Working | InputRequired | Completed | Canceled | Failed | Rejected
| AuthRequired | UnknownState

record TaskHandlerResult =
  parts :: "part list"
  metadata :: "metadata option"
  state :: "task_state option"

text \<open>
  The user message as it arrives: the types of the source promise a \<open>parts\<close> array, the
  value on the wire may lack it, and reading \<open>parts[0]\<close> then throws.
\<close>

record message =
  msg_parts :: "part list option"
  msg_metadata :: "metadata option"

record task =
  task_id :: string
  task_contextId :: string
  task_state :: task_state
  task_timestamp :: nat
  task_artifacts :: "jsval list"
  task_history :: "message list"
  task_metadata :: "metadata option"

record RequestContext =
  taskId :: string
  contextId :: string
  userMessage :: message
  existingTask :: "task option"

text \<open>
  A status-update event. \<open>ev_parts\<close> are the parts of the embedded agent message;
  its \<open>messageId\<close>, a fresh UUID, is left out. The time stamp is the clock of the run in
  milliseconds.
\<close>

record status_update =
  ev_taskId :: string
  ev_contextId :: string
  ev_state :: task_state
  ev_parts :: "part list"
  ev_timestamp :: nat
  ev_final :: bool
  ev_metadata :: "metadata option"

datatype event = TaskEvent task | StatusUpdate status_update

section \<open>The expression evaluator\<close>

text \<open>
  \<open>handleCalculation\<close> passes the residual expression to JavaScript's \<open>eval\<close>, which
  either returns a value or throws. \<open>eval\<close> belongs to the language, not to the agent,
  so the agent is modelled over an arbitrary evaluator of this type.
\<close>

datatype eval_outcome = Returns jsval | Throws thrown

text \<open>
  For integer arithmetic the result of \<open>eval\<close> is computed here: decimal integer
  literals, the binary operators \<open>+ - * /\<close>, unary \<open>+\<close> and \<open>-\<close>, and parentheses, with
  the precedence of JavaScript. \<open>arith_eval\<close> answers only where the double-precision
  result is an exact integer: every literal and every intermediate result lies within
  \<open>2^53\<close>, a division leaves no remainder, and no negative zero arises. Everywhere else
  (a decimal point, the tokens \<open>++ -- ** // /*\<close>, a literal with a leading zero, a regular
  expression literal, a syntax error) it gives \<open>None\<close> and says nothing.
\<close>

datatype tok = TNum string | TPlus | TMinus | TStar | TSlash | TLParen | TRParen

definition operatorToken :: "char \<Rightarrow> tok option" where
  "operatorToken c =
     map_of [(CHR ''+'', TPlus), (CHR ''-'', TMinus), (CHR ''*'', TStar), (CHR ''/'', TSlash),
             (CHR ''('', TLParen), (CHR '')'', TRParen)] c"

definition flushNumber :: "string \<Rightarrow> tok list" where
  "flushNumber ds = (if ds = [] then [] else [TNum ds])"

fun tokenize :: "string \<Rightarrow> string \<Rightarrow> tok list option" where
  "tokenize ds [] = Some (flushNumber ds)"
| "tokenize ds (c # cs) =
     (if isDigit c then tokenize (ds @ [c]) cs
      else
        (case operatorToken c of
           None \<Rightarrow> None
         | Some t \<Rightarrow> map_option (\<lambda>ts. flushNumber ds @ t # ts) (tokenize [] cs)))"

text \<open>Two adjacent characters that JavaScript reads as one token or as a comment.\<close>

fun fused :: "tok list \<Rightarrow> bool" where
  "fused (a # b # ts) =
     ((a, b) \<in> {(TPlus, TPlus), (TMinus, TMinus), (TStar, TStar), (TSlash, TSlash),
                (TSlash, TStar)}
      \<or> fused (b # ts))"
| "fused ts = False"

definition digitValue :: "char \<Rightarrow> int" where
  "digitValue c = (case map_of (zip ''0123456789'' [0, 1, 2, 3, 4, 5, 6, 7, 8, 9]) c of
                    Some d \<Rightarrow> d
                  | None \<Rightarrow> 0)"

definition decimalValue :: "string \<Rightarrow> int" where
  "decimalValue ds = foldl (\<lambda>acc c. 10 * acc + digitValue c) 0 ds"

definition safeInteger :: "int \<Rightarrow> int option" where
  "safeInteger v = (if \<bar>v\<bar> \<le> 2 ^ 53 then Some v else None)"

definition literalValue :: "string \<Rightarrow> int option" where
  "literalValue ds =
     (if length ds > 1 \<and> hd ds = CHR ''0'' then None
      else safeInteger (decimalValue ds))"

definition negate :: "int \<Rightarrow> int option" where
  "negate v = (if v = 0 then None else Some (- v))"

definition multiply :: "int \<Rightarrow> int \<Rightarrow> int option" where
  "multiply a b = (if a * b = 0 \<and> (a < 0 \<or> b < 0) then None else safeInteger (a * b))"

definition divide :: "int \<Rightarrow> int \<Rightarrow> int option" where
  "divide a b =
     (if b = 0 then None
      else if a mod b = 0 then (if a = 0 \<and> b < 0 then None else Some (a div b))
      else None)"

text \<open>
  Recursive descent. The first argument bounds the depth of the calls; an exhausted
  bound gives \<open>None\<close>, like every other case outside the fragment.
\<close>

datatype production =
  Additive | AdditiveRest int | Multiplicative | MultiplicativeRest int | Unary | Primary

fun parse :: "nat \<Rightarrow> production \<Rightarrow> tok list \<Rightarrow> (int \<times> tok list) option" where
  "parse 0 nt ts = None"
| "parse (Suc n) Additive ts =
     Option.bind (parse n Multiplicative ts) (\<lambda>(v, r). parse n (AdditiveRest v) r)"
| "parse (Suc n) (AdditiveRest acc) ts =
     (case ts of
        TPlus # r \<Rightarrow>
          Option.bind (parse n Multiplicative r) (\<lambda>(v, r').
          Option.bind (safeInteger (acc + v)) (\<lambda>a. parse n (AdditiveRest a) r'))
      | TMinus # r \<Rightarrow>
          Option.bind (parse n Multiplicative r) (\<lambda>(v, r').
          Option.bind (safeInteger (acc - v)) (\<lambda>a. parse n (AdditiveRest a) r'))
      | _ \<Rightarrow> Some (acc, ts))"
| "parse (Suc n) Multiplicative ts =
     Option.bind (parse n Unary ts) (\<lambda>(v, r). parse n (MultiplicativeRest v) r)"
| "parse (Suc n) (MultiplicativeRest acc) ts =
     (case ts of
        TStar # r \<Rightarrow>
          Option.bind (parse n Unary r) (\<lambda>(v, r').
          Option.bind (multiply acc v) (\<lambda>a. parse n (MultiplicativeRest a) r'))
      | TSlash # r \<Rightarrow>
          Option.bind (parse n Unary r) (\<lambda>(v, r').
          Option.bind (divide acc v) (\<lambda>a. parse n (MultiplicativeRest a) r'))
      | _ \<Rightarrow> Some (acc, ts))"
| "parse (Suc n) Unary ts =
     (case ts of
        TPlus # r \<Rightarrow> parse n Unary r
      | TMinus # r \<Rightarrow>
          Option.bind (parse n Unary r) (\<lambda>(v, r'). map_option (\<lambda>w. (w, r')) (negate v))
      | _ \<Rightarrow> parse n Primary ts)"
| "parse (Suc n) Primary ts =
     (case ts of
        TNum ds # r \<Rightarrow> map_option (\<lambda>v. (v, r)) (literalValue ds)
      | TLParen # r \<Rightarrow>
          (case parse n Additive r of
             Some (v, TRParen # r') \<Rightarrow> Some (v, r')
           | _ \<Rightarrow> None)
      | _ \<Rightarrow> None)"

definition arith_eval :: "string \<Rightarrow> int option" where
  "arith_eval expression =
     (case tokenize [] expression of
        None \<Rightarrow> None
      | Some ts \<Rightarrow>
          if fused ts then None
          else
            (case parse (6 * length ts + 6) Additive ts of
               Some (v, []) \<Rightarrow> Some v
             | _ \<Rightarrow> None))"

text \<open>
  The evaluator that computes integer arithmetic as above and is \<open>other\<close>, any evaluator
  at all, on every other expression.
\<close>

definition eval_with :: "(string \<Rightarrow> eval_outcome) \<Rightarrow> string \<Rightarrow> eval_outcome" where
  "eval_with other expression =
     (case arith_eval expression of
        Some v \<Rightarrow> Returns (JNum v)
      | None \<Rightarrow> other expression)"

section \<open>Numbers\<close>

text \<open>
  A JavaScript number is an IEEE 754 double. \<open>toDouble x\<close> is the double nearest to the
  real number \<open>x\<close>, with ties to the even significand, for \<open>x\<close> below the overflow
  threshold: \<open>x\<close> is rounded to a multiple of the unit in the last place of its binade,
  53 significant bits, the subnormal numbers included. The product \<open>a * b\<close> of two doubles
  in JavaScript is \<open>toDouble (a * b)\<close>.
\<close>

text \<open>
  The binary exponent of a positive real \<open>x\<close>, the \<open>e\<close> with \<open>2 ^ e \<le> x < 2 ^ (e + 1)\<close>, found by
  halving or doubling \<open>x\<close> until it lies in \<open>[1,2)\<close>.
\<close>

function binaryExponent :: "real \<Rightarrow> int" where
  "binaryExponent x =
     (if x \<le> 0 then 0
      else if 2 \<le> x then binaryExponent (x / 2) + 1
      else if x < 1 then binaryExponent (2 * x) - 1
      else 0)"
  by pat_completeness auto
termination
proof (relation "measure (\<lambda>x. nat \<lfloor>x\<rfloor> + 2 * nat \<lceil>1 / x\<rceil>)")
  show "wf (measure (\<lambda>x. nat \<lfloor>x\<rfloor> + 2 * nat \<lceil>1 / x\<rceil>))" by simp
next
  fix x :: real
  assume "\<not> x \<le> 0" and x: "2 \<le> x"
  have "0 < 1 / (x / 2)" "1 / (x / 2) \<le> 1" using x by simp_all
  then have c1: "\<lceil>1 / (x / 2)\<rceil> = 1" by (simp add: ceiling_eq_iff)
  have "0 < 1 / x" "1 / x \<le> 1" using x by simp_all
  then have c2: "\<lceil>1 / x\<rceil> = 1" by (simp add: ceiling_eq_iff)
  have nonneg: "0 \<le> \<lfloor>x / 2\<rfloor>" using x by simp
  have "x / 2 + 1 \<le> x" using x by simp
  then have "\<lfloor>x / 2 + 1\<rfloor> \<le> \<lfloor>x\<rfloor>" by (rule floor_mono)
  then have "\<lfloor>x / 2\<rfloor> < \<lfloor>x\<rfloor>" by simp
  then have "nat \<lfloor>x / 2\<rfloor> < nat \<lfloor>x\<rfloor>"
    by (simp only: nat_less_eq_zless [OF nonneg])
  then show "(x / 2, x) \<in> measure (\<lambda>x. nat \<lfloor>x\<rfloor> + 2 * nat \<lceil>1 / x\<rceil>)"
    by (simp only: in_measure c1 c2)
next
  fix x :: real
  assume pos: "\<not> x \<le> 0" and "\<not> 2 \<le> x" and x: "x < 1"
  define y where "y = 1 / x"
  have y: "1 < y" using pos x by (simp add: y_def)
  have half: "1 / (2 * x) = y / 2" by (simp add: y_def)
  have fx: "\<lfloor>x\<rfloor> = 0" using pos x by (simp add: floor_eq_iff)
  have "\<lfloor>2 * x\<rfloor> < 2" using x by (simp add: floor_less_iff)
  then have f2: "nat \<lfloor>2 * x\<rfloor> \<le> 1" by linarith
  have "0 < y / 2" using y by simp
  then have c0: "0 < \<lceil>y / 2\<rceil>" by (simp add: less_ceiling_iff)
  have "\<lceil>y / 2\<rceil> < \<lceil>y\<rceil>"
  proof (cases "y \<le> 2")
    case True
    then have "\<lceil>y\<rceil> = 2" using y by (simp add: ceiling_eq_iff)
    moreover have "\<lceil>y / 2\<rceil> = 1" using True y by (simp add: ceiling_eq_iff)
    ultimately show ?thesis by simp
  next
    case False
    then have "y / 2 + 1 \<le> y" by simp
    then have "\<lceil>y / 2 + 1\<rceil> \<le> \<lceil>y\<rceil>" by (rule ceiling_mono)
    then show ?thesis by simp
  qed
  then have "nat \<lceil>y / 2\<rceil> < nat \<lceil>y\<rceil>"
    using c0 by simp
  then have "nat \<lfloor>2 * x\<rfloor> + 2 * nat \<lceil>y / 2\<rceil> < 0 + 2 * nat \<lceil>y\<rceil>"
    using f2 by linarith
  then show "(2 * x, x) \<in> measure (\<lambda>x. nat \<lfloor>x\<rfloor> + 2 * nat \<lceil>1 / x\<rceil>)"
    by (simp only: in_measure half fx y_def [symmetric])
qed

declare binaryExponent.simps [simp del]

text \<open>The power of two with an integer exponent.\<close>

definition twoTo :: "int \<Rightarrow> real" where
  "twoTo k = (if 0 \<le> k then 2 ^ nat k else 1 / 2 ^ nat (- k))"

text \<open>
  The unit in the last place of the binade of \<open>x\<close>: 52 binary places below its exponent, and
  that of the smallest normal number for the subnormal ones.
\<close>

definition ulp :: "real \<Rightarrow> real" where
  "ulp x = twoTo (max (binaryExponent \<bar>x\<bar>) (- 1022) - 52)"

definition roundHalfEven :: "real \<Rightarrow> int" where
  "roundHalfEven y =
     (let f = \<lfloor>y\<rfloor>
      in if y - of_int f < 1 / 2 then f
         else if 1 / 2 < y - of_int f then f + 1
         else if even f then f else f + 1)"

definition toDouble :: "real \<Rightarrow> real" where
  "toDouble x = (if x = 0 then 0 else of_int (roundHalfEven (x / ulp x)) * ulp x)"

text \<open>The reals that are doubles.\<close>

definition isDouble :: "real \<Rightarrow> bool" where
  "isDouble x = (toDouble x = x)"

section \<open>Environment and run state\<close>

text \<open>
  What the agent reads from outside: the plan id of the server configuration
  (\<open>process.env.PLAN_ID || "plan"\<close>), the evaluator behind \<open>eval\<close>, the results of the
  successive calls of \<open>Math.random()\<close>, which are doubles from 0 up to but not including
  1, and what reading a property gives that a plain object does not have itself but
  inherits. \<open>inherited [k]\<close> is the value of \<open>o[k]\<close> for a plain object \<open>o\<close> without an
  own property \<open>k\<close>, such as \<open>o["constructor"]\<close>, and \<open>inherited [k, l]\<close> is the value
  of \<open>o[k][l]\<close>; it is \<open>undefined\<close> where nothing is inherited, and reading may throw.
\<close>

record env =
  planId :: string
  js_eval :: "string \<Rightarrow> eval_outcome"
  random :: "nat \<Rightarrow> real"
  inherited :: "string list \<Rightarrow> eval_outcome"

text \<open>
  The continuation of an \<open>async\<close> function that is waiting for a timer. The only one
  that outlives \<open>execute\<close> is the rest of \<open>finalizePushNotificationTask\<close>, with its task
  id and context id.
\<close>

datatype background = AfterPushConfigWait string string

text \<open>
  The event bus and the timers of one run: the events published so far in order, the
  number of calls of \<open>eventBus.finished()\<close>, the clock in milliseconds, and the pending
  timers with their due times, earliest first.
\<close>

record run_state =
  published :: "event list"
  finishedCalls :: nat
  clock :: nat
  timers :: "(nat \<times> background) list"

definition initial :: run_state where
  "initial = \<lparr>published = [], finishedCalls = 0, clock = 0, timers = []\<rparr>"

definition publish :: "event \<Rightarrow> run_state \<Rightarrow> run_state" where
  "publish e s = s\<lparr>published := published s @ [e]\<rparr>"

definition finished :: "run_state \<Rightarrow> run_state" where
  "finished s = s\<lparr>finishedCalls := Suc (finishedCalls s)\<rparr>"

fun add_timer :: "nat \<times> background \<Rightarrow> (nat \<times> background) list \<Rightarrow> (nat \<times> background) list" where
  "add_timer t [] = [t]"
| "add_timer t (u # us) = (if fst u \<le> fst t then u # add_timer t us else t # u # us)"

definition setTimeout :: "nat \<Rightarrow> background \<Rightarrow> run_state \<Rightarrow> run_state" where
  "setTimeout delay k s = s\<lparr>timers := add_timer (clock s + delay, k) (timers s)\<rparr>"

section \<open>Glyphs of the message texts\<close>

definition nl :: string where "nl = [CHR 0x0A]"
definition dquote :: string where "dquote = [CHR 0x22]"
definition bullet :: string where "bullet = [CHR 0xE2, CHR 0x80, CHR 0xA2]"
definition arrow :: string where "arrow = [CHR 0xE2, CHR 0x86, CHR 0x92]"
definition degree :: string where "degree = [CHR 0xC2, CHR 0xB0]"
definition barChart :: string where "barChart = [CHR 0xF0, CHR 0x9F, CHR 0x93, CHR 0x8A]"
definition sunCloud :: string where
  "sunCloud = [CHR 0xF0, CHR 0x9F, CHR 0x8C, CHR 0xA4, CHR 0xEF, CHR 0xB8, CHR 0x8F]"
definition globe :: string where "globe = [CHR 0xF0, CHR 0x9F, CHR 0x8C, CHR 0x8D]"
definition rocket :: string where "rocket = [CHR 0xF0, CHR 0x9F, CHR 0x9A, CHR 0x80]"
definition robot :: string where "robot = [CHR 0xF0, CHR 0x9F, CHR 0xA4, CHR 0x96]"

section \<open>Task handlers\<close>

definition capabilitySummary :: string where
  "capabilitySummary =
     ''! I'm your AI assistant with payment integration. I can help you with:'' @ nl @
     bullet @ '' Greetings and information (1 credit)'' @ nl @
     bullet @ '' Mathematical calculations (2 credits)'' @ nl @
     bullet @ '' Weather information (3 credits)'' @ nl @
     bullet @ '' Language translations (4 credits)'' @ nl @
     bullet @ '' Streaming responses (5 credits)'' @ nl @ nl @
     ''Just ask me anything!''"

definition handleGreeting :: "env \<Rightarrow> string \<Rightarrow> TaskHandlerResult" where
  "handleGreeting e userText =
     (let greeting = (if isGreeting userText then userText else ''Hello'')
      in \<lparr>parts = [TextPart (greeting @ capabilitySummary)],
          metadata = Some [(''creditsUsed'', JNum 1),
                           (''planId'', JStr (planId e)),
                           (''costDescription'', JStr ''Basic greeting response''),
                           (''operationType'', JStr ''greeting'')],
          state = Some Completed\<rparr>)"

definition handleCalculation :: "env \<Rightarrow> string \<Rightarrow> TaskHandlerResult" where
  "handleCalculation e userText =
     (let expression = extractExpression userText
      in if expression = [] then
           \<lparr>parts = [TextPart ''Error: Please provide a valid mathematical expression''],
            metadata = Some [(''creditsUsed'', JNum 1),
                             (''planId'', JStr (planId e)),
                             (''operationType'', JStr ''calculation_error'')],
            state = Some Failed\<rparr>
         else
           (case js_eval e expression of
              Returns result \<Rightarrow>
                \<lparr>parts = [TextPart (barChart @ '' Calculation Result:'' @ nl @
                                    expression @ '' = '' @ js_toString result)],
                 metadata = Some [(''creditsUsed'', JNum 2),
                                  (''planId'', JStr (planId e)),
                                  (''costDescription'', JStr ''Mathematical calculation''),
                                  (''operationType'', JStr ''calculation''),
                                  (''expression'', JStr expression),
                                  (''result'', result)],
                 state = Some Completed\<rparr>
            | Throws error \<Rightarrow>
                \<lparr>parts = [TextPart ''Error: Invalid mathematical expression''],
                 metadata = Some [(''creditsUsed'', JNum 1),
                                  (''planId'', JStr (planId e)),
                                  (''expression'', JStr expression),
                                  (''operationType'', JStr ''calculation_error'')],
                 state = Some Failed\<rparr>))"

text \<open>
  The object that \<open>simulateWeatherAPI\<close> returns; its time stamp is the clock of the run
  in milliseconds.
\<close>

record weatherData =
  location :: string
  description :: jsval
  temperature :: int
  humidity :: int
  windSpeed :: int
  timestamp :: nat

definition conditions :: "string list" where
  "conditions = [''Sunny'', ''Cloudy'', ''Rainy'', ''Snowy'', ''Windy'', ''Partly Cloudy'']"

text \<open>\<open>xs[i]\<close> for an integer index: \<open>undefined\<close> outside the array.\<close>

definition elementAt :: "string list \<Rightarrow> int \<Rightarrow> jsval" where
  "elementAt xs i = (if 0 \<le> i \<and> i < int (length xs) then JStr (xs ! nat i) else JUndefined)"

definition simulateWeatherAPI :: "env \<Rightarrow> nat \<Rightarrow> string \<Rightarrow> weatherData" where
  "simulateWeatherAPI e now loc =
     (let randomCondition =
            elementAt conditions \<lfloor>toDouble (random e 0 * real (length conditions))\<rfloor>;
          randomTemp = \<lfloor>toDouble (random e 1 * 30)\<rfloor> + 5;
          randomHumidity = \<lfloor>toDouble (random e 2 * 40)\<rfloor> + 30;
          randomWind = \<lfloor>toDouble (random e 3 * 20)\<rfloor> + 5
      in \<lparr>location = loc,
          description = randomCondition,
          temperature = randomTemp,
          humidity = randomHumidity,
          windSpeed = randomWind,
          timestamp = now\<rparr>)"

definition weatherDataObject :: "weatherData \<Rightarrow> jsval" where
  "weatherDataObject w =
     JObj [(''location'', JStr (location w)),
           (''description'', description w),
           (''temperature'', JNum (temperature w)),
           (''humidity'', JNum (humidity w)),
           (''windSpeed'', JNum (windSpeed w)),
           (''timestamp'', JNum (int (timestamp w)))]"

definition handleWeatherRequest :: "env \<Rightarrow> nat \<Rightarrow> string \<Rightarrow> TaskHandlerResult" where
  "handleWeatherRequest e now userText =
     (let loc = extractLocation userText
      in if loc = [] then
           \<lparr>parts = [TextPart ''Error: Please specify a location for weather information''],
            metadata = Some [(''creditsUsed'', JNum 1),
                             (''planId'', JStr (planId e)),
                             (''operationType'', JStr ''weather_error'')],
            state = Some Failed\<rparr>
         else
           (let w = simulateWeatherAPI e now loc
            in \<lparr>parts = [TextPart (sunCloud @ '' Weather in '' @ loc @ '':'' @ nl @
                                   js_toString (description w) @ '', '' @
                                   showInt (temperature w) @ degree @ ''C'' @ nl @
                                   ''Humidity: '' @ showInt (humidity w) @ ''%'' @ nl @
                                   ''Wind: '' @ showInt (windSpeed w) @ '' km/h'')],
                metadata = Some [(''creditsUsed'', JNum 3),
                                 (''planId'', JStr (planId e)),
                                 (''costDescription'', JStr ''Weather information request''),
                                 (''operationType'', JStr ''weather''),
                                 (''location'', JStr loc),
                                 (''weatherData'', weatherDataObject w)],
                state = Some Completed\<rparr>))"

text \<open>
  The phrase table of \<open>simulateTranslation\<close>, by language and lower-cased phrase: the
  own properties of the object \<open>translations\<close> and of the three objects in it.
\<close>

definition translationTable :: "(string \<times> (string \<times> string) list) list" where
  "translationTable =
     [(''spanish'',
         [(''hello'', ''hola''),
          (''goodbye'', ''adi'' @ [CHR 0xC3, CHR 0xB3] @ ''s''),
          (''thank you'', ''gracias''),
          (''good morning'', ''buenos d'' @ [CHR 0xC3, CHR 0xAD] @ ''as''),
          (''how are you'', [CHR 0xC2, CHR 0xBF] @ ''c'' @ [CHR 0xC3, CHR 0xB3] @ ''mo est''
                              @ [CHR 0xC3, CHR 0xA1] @ ''s?'')]),
      (''french'',
         [(''hello'', ''bonjour''),
          (''goodbye'', ''au revoir''),
          (''thank you'', ''merci''),
          (''good morning'', ''bonjour''),
          (''how are you'', ''comment allez-vous?'')]),
      (''german'',
         [(''hello'', ''hallo''),
          (''goodbye'', ''auf wiedersehen''),
          (''thank you'', ''danke''),
          (''good morning'', ''guten morgen''),
          (''how are you'', ''wie geht es dir?'')])]"

text \<open>
  \<open>translations[lang] && translations[lang][lowerText]\<close>: the phrase of the table when
  both keys are own properties; otherwise what the objects inherit. When the value found
  is truthy it is returned as it is, also when it is not a string.
\<close>

definition simulateTranslation :: "env \<Rightarrow> string \<Rightarrow> string \<Rightarrow> thrown + jsval" where
  "simulateTranslation e text targetLanguage =
     (let lang = toLowerCase targetLanguage;
          lowerText = toLowerCase text;
          fallback = JStr (text @ '' ('' @ targetLanguage @ '')'')
      in case map_of translationTable lang of
           Some phrases \<Rightarrow>
             (case map_of phrases lowerText of
                Some translation \<Rightarrow> Inr (JStr translation)
              | None \<Rightarrow>
                  (case inherited e [lowerText] of
                     Throws error \<Rightarrow> Inl error
                   | Returns v \<Rightarrow> Inr (if isTruthy v then v else fallback)))
         | None \<Rightarrow>
             (case inherited e [lang] of
                Throws error \<Rightarrow> Inl error
              | Returns phrases \<Rightarrow>
                  if isTruthy phrases then
                    (case inherited e [lang, lowerText] of
                       Throws error \<Rightarrow> Inl error
                     | Returns v \<Rightarrow> Inr (if isTruthy v then v else fallback))
                  else Inr fallback))"

definition translationFormatError :: string where
  "translationFormatError =
     ''Error: Please use format: 'translate '' @ dquote @ ''text'' @ dquote @ '' to language''
       @ [CHR 0x27]"

definition handleTranslationRequest :: "env \<Rightarrow> string \<Rightarrow> thrown + TaskHandlerResult" where
  "handleTranslationRequest e userText =
     (case translationRegex userText of
        None \<Rightarrow>
          Inr \<lparr>parts = [TextPart translationFormatError],
               metadata = Some [(''creditsUsed'', JNum 1),
                                (''planId'', JStr (planId e)),
                                (''operationType'', JStr ''translation_error'')],
               state = Some Failed\<rparr>
      | Some (text, targetLanguage) \<Rightarrow>
          (case simulateTranslation e text targetLanguage of
             Inl error \<Rightarrow> Inl error
           | Inr translation \<Rightarrow>
               Inr \<lparr>parts = [TextPart (globe @ '' Translation:'' @ nl @
                                      dquote @ text @ dquote @ '' '' @ arrow @ '' '' @
                                      dquote @ js_toString translation @ dquote @
                                      '' ('' @ targetLanguage @ '')'')],
                    metadata = Some [(''creditsUsed'', JNum 4),
                                     (''planId'', JStr (planId e)),
                                     (''costDescription'', JStr ''Language translation''),
                                     (''operationType'', JStr ''translation''),
                                     (''originalText'', JStr text),
                                     (''targetLanguage'', JStr targetLanguage),
                                     (''translatedText'', translation)],
                    state = Some Completed\<rparr>))"

definition handleGeneralRequest :: "env \<Rightarrow> string \<Rightarrow> TaskHandlerResult" where
  "handleGeneralRequest e userText =
     \<lparr>parts = [TextPart (robot @ '' I received your request: '' @ dquote @ userText @ dquote
                          @ nl @ nl @
                          ''I'm an AI assistant with payment integration. ''
                          @ ''Each operation costs different credits:'' @ nl @
                          bullet @ '' Greetings: 1 credit'' @ nl @
                          bullet @ '' Calculations: 2 credits'' @ nl @
                          bullet @ '' Weather: 3 credits'' @ nl @
                          bullet @ '' Translations: 4 credits'' @ nl @
                          bullet @ '' Streaming: 5 credits'' @ nl @ nl @
                          ''Try asking me to calculate something, get weather info, ''
                          @ ''or translate text!'')],
      metadata = Some [(''creditsUsed'', JNum 1),
                       (''planId'', JStr (planId e)),
                       (''costDescription'', JStr ''General request processing''),
                       (''operationType'', JStr ''general'')],
      state = Some Completed\<rparr>"

section \<open>Timers\<close>

text \<open>
  What happens when the timer of a waiting continuation fires: the rest of
  \<open>finalizePushNotificationTask\<close> publishes the final \<open>completed\<close> event and signals
  that the stream is finished.
\<close>

definition pushCompletedUpdate :: "env \<Rightarrow> string \<Rightarrow> string \<Rightarrow> nat \<Rightarrow> status_update" where
  "pushCompletedUpdate e tid cid now =
     \<lparr>ev_taskId = tid,
      ev_contextId = cid,
      ev_state = Completed,
      ev_parts = [TextPart ''Push notification task completed!''],
      ev_timestamp = now,
      ev_final = True,
      ev_metadata = Some [(''completed'', JBool True),
                          (''creditsUsed'', JNum 5),
                          (''planId'', JStr (planId e)),
                          (''costDescription'', JStr ''Push notification task completed''),
                          (''operationType'', JStr ''push_notification'')]\<rparr>"

fun resume :: "env \<Rightarrow> background \<Rightarrow> run_state \<Rightarrow> run_state" where
  "resume e (AfterPushConfigWait tid cid) s =
     finished (publish (StatusUpdate (pushCompletedUpdate e tid cid (clock s))) s)"

text \<open>
  \<open>advance e t s\<close> lets the clock reach \<open>t\<close>: the timers due by then fire in order, each
  at its due time.
\<close>

definition advance :: "env \<Rightarrow> nat \<Rightarrow> run_state \<Rightarrow> run_state" where
  "advance e t s =
     (fold (\<lambda>(due, k) s'. resume e k (s'\<lparr>clock := due\<rparr>))
           (takeWhile (\<lambda>(due, k). due \<le> t) (timers s))
           (s\<lparr>timers := dropWhile (\<lambda>(due, k). due \<le> t) (timers s)\<rparr>))
     \<lparr>clock := t\<rparr>"

text \<open>\<open>await new Promise((resolve) => setTimeout(resolve, ms))\<close>\<close>

definition sleep :: "env \<Rightarrow> nat \<Rightarrow> run_state \<Rightarrow> run_state" where
  "sleep e ms s = advance e (clock s + ms) s"

text \<open>After \<open>execute\<close> has returned, time passes until no timer is pending.\<close>

definition settle :: "env \<Rightarrow> run_state \<Rightarrow> run_state" where
  "settle e s = (if timers s = [] then s else advance e (fst (last (timers s))) s)"

section \<open>Streaming emitter and push notification\<close>

definition workingUpdate :: "string \<Rightarrow> string \<Rightarrow> string \<Rightarrow> nat \<Rightarrow> status_update" where
  "workingUpdate tid cid text now =
     \<lparr>ev_taskId = tid,
      ev_contextId = cid,
      ev_state = Working,
      ev_parts = [TextPart text],
      ev_timestamp = now,
      ev_final = False,
      ev_metadata = None\<rparr>"

text \<open>The template literal \<open>`Streaming message ${i}/${totalMessages}`\<close>\<close>

definition streamingMessageText :: "nat \<Rightarrow> nat \<Rightarrow> string" where
  "streamingMessageText i totalMessages =
     ''Streaming message '' @ showNat i @ ''/'' @ showNat totalMessages"

text \<open>The \<open>for\<close> loop of \<open>handleStreamingRequest\<close>, from the value \<open>i\<close> of its counter.\<close>

function streamingLoop ::
  "env \<Rightarrow> nat \<Rightarrow> nat \<Rightarrow> nat \<Rightarrow> string \<Rightarrow> string \<Rightarrow> run_state \<Rightarrow> run_state" where
  "streamingLoop e i totalMessages delayMs tid cid s =
     (if i \<le> totalMessages then
        streamingLoop e (i + 1) totalMessages delayMs tid cid
          (sleep e delayMs
            (publish
              (StatusUpdate
                (workingUpdate tid cid (streamingMessageText i totalMessages) (clock s)))
              s))
      else s)"
  by pat_completeness auto
termination
  by (relation "measure (\<lambda>(e, i, totalMessages, delayMs, tid, cid, s). Suc totalMessages - i)")
     auto

declare streamingLoop.simps [simp del]

definition handleStreamingRequest ::
  "env \<Rightarrow> string \<Rightarrow> RequestContext \<Rightarrow> run_state \<Rightarrow> TaskHandlerResult \<times> run_state" where
  "handleStreamingRequest e userText context s =
     (let totalMessages = 10;
          delayMs = 1000;
          tid = taskId context;
          cid = contextId context;
          s1 = streamingLoop e 1 totalMessages delayMs tid cid s;
          s2 = publish (StatusUpdate (workingUpdate tid cid ''Streaming finished!'' (clock s1))) s1
      in (\<lparr>parts = [TextPart (rocket @ '' Streaming started! You will receive 60 messages ''
                                @ ''via SSE (one per second).'' @ nl
                                @ ''Check your /message/stream subscription.'')],
           metadata = Some [(''creditsUsed'', JNum 5),
                            (''planId'', JStr (planId e)),
                            (''costDescription'', JStr ''Streaming response''),
                            (''operationType'', JStr ''streaming''),
                            (''streamingType'', JStr ''text'')],
           state = Some Completed\<rparr>,
          s2))"

text \<open>
  \<open>simulateWaitForPushConfig\<close> sets a timer of ten seconds; the caller's continuation
  runs when it fires.
\<close>

definition simulateWaitForPushConfig :: "background \<Rightarrow> run_state \<Rightarrow> run_state" where
  "simulateWaitForPushConfig k s = setTimeout 10000 k s"

text \<open>
  \<open>finalizePushNotificationTask\<close> is called without \<open>await\<close>: it runs up to its first
  \<open>await\<close>, the rest is \<open>resume\<close>.
\<close>

definition finalizePushNotificationTask :: "string \<Rightarrow> string \<Rightarrow> run_state \<Rightarrow> run_state" where
  "finalizePushNotificationTask tid cid s =
     simulateWaitForPushConfig (AfterPushConfigWait tid cid) s"

definition pushWaitingText :: string where
  "pushWaitingText =
     ''Push notification request received. Waiting for pushNotificationConfig...''"

definition handlePushNotificationRequest ::
  "env \<Rightarrow> string \<Rightarrow> RequestContext \<Rightarrow> run_state \<Rightarrow> TaskHandlerResult \<times> run_state" where
  "handlePushNotificationRequest e userText context s =
     (let tid = taskId context;
          cid = contextId context;
          s1 = publish (StatusUpdate (workingUpdate tid cid pushWaitingText (clock s))) s;
          s2 = finalizePushNotificationTask tid cid s1
      in (\<lparr>parts = [TextPart pushWaitingText],
           metadata = None,
           state = Some Working\<rparr>,
          s2))"

section \<open>The executor\<close>

text \<open>
  The body of the \<open>try\<close> block of \<open>handleTask\<close>: the handler chosen by the routing
  chain, with the flag \<open>expectsMoreUpdates\<close>. \<open>Inl\<close> is a thrown value.
\<close>

definition handleTask_try ::
  "env \<Rightarrow> string \<Rightarrow> RequestContext \<Rightarrow> run_state
     \<Rightarrow> (thrown + TaskHandlerResult \<times> bool) \<times> run_state" where
  "handleTask_try e userText context s =
     (if isGreeting userText then (Inr (handleGreeting e userText, False), s)
      else if isCalculation userText then (Inr (handleCalculation e userText, False), s)
      else if isWeatherRequest userText then
        (Inr (handleWeatherRequest e (clock s) userText, False), s)
      else if isTranslationRequest userText then
        (case handleTranslationRequest e userText of
           Inl error \<Rightarrow> (Inl error, s)
         | Inr result \<Rightarrow> (Inr (result, False), s))
      else if isStreamingRequest userText then
        (case handleStreamingRequest e userText context s of
           (result, s') \<Rightarrow> (Inr (result, False), s'))
      else if isPushNotificationRequest userText then
        (case handlePushNotificationRequest e userText context s of
           (result, s') \<Rightarrow> (Inr (result, True), s'))
      else (Inr (handleGeneralRequest e userText, False), s))"

definition processingErrorResult :: "env \<Rightarrow> thrown \<Rightarrow> TaskHandlerResult" where
  "processingErrorResult e error =
     \<lparr>parts = [TextPart (''Error: '' @
                  (case error of
                     ErrorInstance message \<Rightarrow> message
                   | NonError v \<Rightarrow> ''Unknown error occurred''))],
      metadata = Some [(''creditsUsed'', JNum 1),
                       (''planId'', JStr (planId e)),
                       (''errorType'', JStr ''processing_error'')],
      state = Some Failed\<rparr>"

text \<open>The text of the first part, \<open>""\<close> when there is none or it is not a text part.\<close>

fun firstPartText :: "part list \<Rightarrow> string" where
  "firstPartText (TextPart text # ps) = text"
| "firstPartText ps = ''''"

text \<open>The message of the \<open>TypeError\<close> that V8 throws for \<open>parts[0]\<close> without \<open>parts\<close>.\<close>

definition missingPartsMessage :: string where
  "missingPartsMessage = ''Cannot read properties of undefined (reading '0')''"

text \<open>
  \<open>handleTask\<close> reads \<open>context.userMessage.parts[0]\<close> before its \<open>try\<close> block, so that
  error is not caught here; what the handlers throw is caught and becomes a failed
  result.
\<close>

definition handleTask ::
  "env \<Rightarrow> RequestContext \<Rightarrow> run_state \<Rightarrow> (thrown + TaskHandlerResult \<times> bool) \<times> run_state" where
  "handleTask e context s =
     (case msg_parts (userMessage context) of
        None \<Rightarrow> (Inl (ErrorInstance missingPartsMessage), s)
      | Some ps \<Rightarrow>
          (let userText = firstPartText ps
           in case handleTask_try e userText context s of
                (Inr r, s') \<Rightarrow> (Inr r, s')
              | (Inl error, s') \<Rightarrow> (Inr (processingErrorResult e error, False), s')))"

definition submittedTask :: "RequestContext \<Rightarrow> nat \<Rightarrow> task" where
  "submittedTask context now =
     \<lparr>task_id = taskId context,
      task_contextId = contextId context,
      task_state = Submitted,
      task_timestamp = now,
      task_artifacts = [],
      task_history = [userMessage context],
      task_metadata = msg_metadata (userMessage context)\<rparr>"

definition finalUpdate :: "RequestContext \<Rightarrow> TaskHandlerResult \<Rightarrow> nat \<Rightarrow> status_update" where
  "finalUpdate context result now =
     \<lparr>ev_taskId = taskId context,
      ev_contextId = contextId context,
      ev_state = (case state result of Some st \<Rightarrow> st | None \<Rightarrow> Completed),
      ev_parts = parts result,
      ev_timestamp = now,
      ev_final = True,
      ev_metadata = metadata result\<rparr>"

definition errorUpdate :: "RequestContext \<Rightarrow> thrown \<Rightarrow> nat \<Rightarrow> status_update" where
  "errorUpdate context error now =
     \<lparr>ev_taskId = taskId context,
      ev_contextId = contextId context,
      ev_state = Failed,
      ev_parts = [TextPart (''Agent error: '' @
                    (case error of
                       ErrorInstance message \<Rightarrow> message
                     | NonError v \<Rightarrow> js_toString v))],
      ev_timestamp = now,
      ev_final = True,
      ev_metadata = Some [(''errorType'', JStr ''agent_error'')]\<rparr>"

text \<open>The \<open>try\<close> block of \<open>execute\<close>.\<close>

definition execute_try ::
  "env \<Rightarrow> RequestContext \<Rightarrow> run_state \<Rightarrow> (thrown + unit) \<times> run_state" where
  "execute_try e requestContext s =
     (let task = (case existingTask requestContext of
                    Some t \<Rightarrow> t
                  | None \<Rightarrow> submittedTask requestContext (clock s));
          s1 = publish (TaskEvent task) s
      in case handleTask e requestContext s1 of
           (Inl error, s2) \<Rightarrow> (Inl error, s2)
         | (Inr (result, expectsMoreUpdates), s2) \<Rightarrow>
             if expectsMoreUpdates then (Inr (), s2)
             else
               (Inr (),
                finished (publish (StatusUpdate (finalUpdate requestContext result (clock s2))) s2)))"

definition execute :: "env \<Rightarrow> RequestContext \<Rightarrow> run_state \<Rightarrow> run_state" where
  "execute e requestContext s =
     (case execute_try e requestContext s of
        (Inr u, s') \<Rightarrow> s'
      | (Inl error, s') \<Rightarrow>
          finished (publish (StatusUpdate (errorUpdate requestContext error (clock s'))) s'))"

text \<open>
  One request from its arrival to the end, when it is the first: \<open>execute\<close> on an empty
  bus, then the pending timers. A request that arrives later is \<open>execute\<close> on the state
  that the earlier ones have left.
\<close>

definition run :: "env \<Rightarrow> RequestContext \<Rightarrow> run_state" where
  "run e requestContext = settle e (execute e requestContext initial)"

definition isFinal :: "event \<Rightarrow> bool" where
  "isFinal ev = (case ev of TaskEvent t \<Rightarrow> False | StatusUpdate u \<Rightarrow> ev_final u)"


text \<open>The credits a metadata object declares: its \<open>creditsUsed\<close> entry when that is an integer.\<close>

definition creditsUsed :: "metadata option \<Rightarrow> int option" where
  "creditsUsed md =
     (case md of
        None \<Rightarrow> None
      | Some m \<Rightarrow> (case map_of m ''creditsUsed'' of Some (JNum n) \<Rightarrow> Some n | _ \<Rightarrow> None))"

text \<open>
  The greeting word that the specification calls the detected one: the first word of the
  list that occurs in the lower-cased text. The source has no such function; it is here
  to compare the specification's wording with \<open>handleGreeting\<close>.
\<close>

definition detectedGreeting :: "string \<Rightarrow> string option" where
  "detectedGreeting text = find (\<lambda>greeting. includes_str (toLowerCase text) greeting) greetings"

section \<open>Transport client\<close>

text \<open>
  The request that each operation of \<open>TestAgentClient\<close> hands to \<open>fetch\<close>: the URL, the
  method, the headers and the payload before \<open>JSON.stringify\<close>. The message id is a fresh
  UUID and comes in as a parameter.
\<close>

datatype json =
  JsonNull
| JsonString string
| JsonNumber int
| JsonBool bool
| JsonArray "json list"
| JsonObject "(string \<times> json) list"

record fetch_request =
  req_url :: string
  req_method :: string
  req_headers :: "(string \<times> string) list"
  req_body :: json

text \<open>The truth value that \<open>if (v)\<close> gives an optional payload value.\<close>

fun truthy :: "json option \<Rightarrow> bool" where
  "truthy None = False"
| "truthy (Some JsonNull) = False"
| "truthy (Some (JsonString s)) = (s \<noteq> [])"
| "truthy (Some (JsonNumber n)) = (n \<noteq> 0)"
| "truthy (Some (JsonBool b)) = b"
| "truthy (Some (JsonArray xs)) = True"
| "truthy (Some (JsonObject kvs)) = True"

definition userMessagePayload :: "string \<Rightarrow> string \<Rightarrow> json" where
  "userMessagePayload messageId message =
     JsonObject [(''messageId'', JsonString messageId),
                 (''role'', JsonString ''user''),
                 (''parts'', JsonArray [JsonObject [(''kind'', JsonString ''text''),
                                                    (''text'', JsonString message)]])]"

definition sendMessage_request ::
  "string \<Rightarrow> string \<Rightarrow> string \<Rightarrow> string option \<Rightarrow> fetch_request" where
  "sendMessage_request baseUrl messageId message bearerToken =
     (let payload =
            JsonObject [(''jsonrpc'', JsonString ''2.0''),
                        (''method'', JsonString ''message/send''),
                        (''params'',
                           JsonObject [(''message'', userMessagePayload messageId message),
                                       (''configuration'',
                                          JsonObject [(''blocking'', JsonBool False)])])];
          headers = [(''Content-Type'', ''application/json'')];
          headers = (case bearerToken of
                       None \<Rightarrow> headers
                     | Some token \<Rightarrow>
                         if token = [] then headers
                         else headers @ [(''Authorization'', ''Bearer '' @ token)])
      in \<lparr>req_url = baseUrl, req_method = ''POST'', req_headers = headers,
          req_body = payload\<rparr>)"

definition sendStreamingMessage_request ::
  "string \<Rightarrow> string \<Rightarrow> string \<Rightarrow> string option \<Rightarrow> json option \<Rightarrow> fetch_request" where
  "sendStreamingMessage_request baseUrl messageId message bearerToken pushNotification =
     (let params = [(''message'', userMessagePayload messageId message)];
          params = (case pushNotification of
                      None \<Rightarrow> params
                    | Some config \<Rightarrow>
                        if truthy (Some config) then params @ [(''pushNotification'', config)]
                        else params);
          payload =
            JsonObject [(''jsonrpc'', JsonString ''2.0''),
                        (''method'', JsonString ''message/stream''),
                        (''params'', JsonObject params)];
          headers = [(''Content-Type'', ''application/json'')];
          headers = (case bearerToken of
                       None \<Rightarrow> headers
                     | Some token \<Rightarrow>
                         if token = [] then headers
                         else headers @ [(''Authorization'', ''Bearer '' @ token)])
      in \<lparr>req_url = baseUrl, req_method = ''POST'', req_headers = headers,
          req_body = payload\<rparr>)"

definition setPushNotificationConfig_request ::
  "string \<Rightarrow> string \<Rightarrow> json \<Rightarrow> string option \<Rightarrow> fetch_request" where
  "setPushNotificationConfig_request baseUrl tid pushNotificationConfig bearerToken =
     (let payload =
            JsonObject [(''jsonrpc'', JsonString ''2.0''),
                        (''method'', JsonString ''tasks/pushNotificationConfig/set''),
                        (''params'',
                           JsonObject [(''taskId'', JsonString tid),
                                       (''pushNotificationConfig'', pushNotificationConfig)]),
                        (''id'', JsonNumber 1)];
          headers = [(''Content-Type'', ''application/json'')];
          headers = (case bearerToken of
                       None \<Rightarrow> headers
                     | Some token \<Rightarrow>
                         if token = [] then headers
                         else headers @ [(''Authorization'', ''Bearer '' @ token)])
      in \<lparr>req_url = baseUrl, req_method = ''POST'', req_headers = headers,
          req_body = payload\<rparr>)"

section \<open>Sample inputs\<close>

text \<open>
  An environment with the default plan id, an evaluator that computes integer arithmetic
  and throws a syntax error on anything else, every random draw equal to one half, and
  the inherited properties \<open>constructor\<close>, the function \<open>Object\<close>, and
  \<open>constructor.caller\<close>, whose getter throws.
\<close>

definition sampleEnv :: env where
  "sampleEnv =
     \<lparr>planId = ''plan'',
      js_eval = eval_with (\<lambda>expression. Throws (ErrorInstance ''Unexpected end of input'')),
      random = (\<lambda>k. 1 / 2),
      inherited =
        (\<lambda>path. if path = [''constructor'']
                 then Returns (JOther ''function Object() { [native code] }'')
               else if path = [''constructor'', ''caller'']
                 then Throws (ErrorInstance ''restricted property'')
               else Returns JUndefined)\<rparr>"

text \<open>A new task whose user message is one text part.\<close>

definition textRequest :: "string \<Rightarrow> RequestContext" where
  "textRequest text =
     \<lparr>taskId = ''task-1'',
      contextId = ''context-1'',
      userMessage = \<lparr>msg_parts = Some [TextPart text], msg_metadata = None\<rparr>,
      existingTask = None\<rparr>"


text \<open>A new task whose user message arrived without a \<open>parts\<close> array.\<close>

definition requestWithoutParts :: RequestContext where
  "requestWithoutParts =
     \<lparr>taskId = ''task-1'',
      contextId = ''context-1'',
      userMessage = \<lparr>msg_parts = None, msg_metadata = None\<rparr>,
      existingTask = None\<rparr>"

section \<open>Routing\<close>

lemma list_ex_member: "x \<in> set xs \<Longrightarrow> P x \<Longrightarrow> list_ex P xs"
  by (auto simp: list_ex_iff)

lemma handleTask_try_classify:
  "handleTask_try e userText context s =
     (case classify userText of
        Greeting \<Rightarrow> (Inr (handleGreeting e userText, False), s)
      | Calculation \<Rightarrow> (Inr (handleCalculation e userText, False), s)
      | Weather \<Rightarrow> (Inr (handleWeatherRequest e (clock s) userText, False), s)
      | Translation \<Rightarrow>
          (case handleTranslationRequest e userText of
             Inl error \<Rightarrow> (Inl error, s)
           | Inr result \<Rightarrow> (Inr (result, False), s))
      | Streaming \<Rightarrow>
          (Inr (fst (handleStreamingRequest e userText context s), False),
           snd (handleStreamingRequest e userText context s))
      | PushNotification \<Rightarrow>
          (Inr (fst (handlePushNotificationRequest e userText context s), True),
           snd (handlePushNotificationRequest e userText context s))
      | General \<Rightarrow> (Inr (handleGeneralRequest e userText, False), s))"
  by (simp add: handleTask_try_def classify_def split: prod.split)

lemma sample_greeting_word: "''hello'' \<in> set greetings"
  by (simp add: greetings_def)

lemma sample_math_keyword: "''calculate'' \<in> set mathKeywords"
  by (simp add: mathKeywords_def)

lemma sample_includes_hello: "includes_str (toLowerCase ''Hello, calculate 2+2'') ''hello''"
  by code_simp

lemma sample_includes_calculate: "includes_str (toLowerCase ''Hello, calculate 2+2'') ''calculate''"
  by code_simp

lemma sample_plain_calculation:
  "\<not> isGreeting ''calculate 2+2'' \<and> isCalculation ''calculate 2+2''"
  by code_simp

lemma greeting_differs: "handleGreeting e t \<noteq> handleCalculation e t"
  by (simp add: handleGreeting_def handleCalculation_def Let_def split: eval_outcome.split)

text \<open>
  Claim C7. A text that contains a greeting word and a math keyword is routed to the
  greeting handler, although the calculation rule matches it too, and what is returned
  is not what the calculation handler returns. \<open>handleTask\<close> tries the rules in the order
  greeting, calculation, weather, translation, streaming, push notification, general:
  each handler is called exactly for the texts that its rule matches and no earlier rule
  does.
\<close>

theorem greeting_has_priority:
  assumes "greeting \<in> set greetings" and "includes_str (toLowerCase text) greeting"
    and "keyword \<in> set mathKeywords" and "includes_str (toLowerCase text) keyword"
  shows "isGreeting text \<and> isCalculation text
         \<and> handleTask_try e text context s = (Inr (handleGreeting e text, False), s)
         \<and> handleTask_try e text context s \<noteq> (Inr (handleCalculation e text, False), s)
         \<and> (\<forall>t c r. isGreeting t \<longrightarrow>
               handleTask_try e t c r = (Inr (handleGreeting e t, False), r))
         \<and> (\<forall>t c r. \<not> isGreeting t \<and> isCalculation t \<longrightarrow>
               handleTask_try e t c r = (Inr (handleCalculation e t, False), r))
         \<and> (\<forall>t c r. \<not> isGreeting t \<and> \<not> isCalculation t \<and> isWeatherRequest t \<longrightarrow>
               handleTask_try e t c r = (Inr (handleWeatherRequest e (clock r) t, False), r))
         \<and> (\<forall>t c r. \<not> isGreeting t \<and> \<not> isCalculation t \<and> \<not> isWeatherRequest t
                  \<and> isTranslationRequest t \<longrightarrow>
               handleTask_try e t c r =
                 (case handleTranslationRequest e t of
                    Inl error \<Rightarrow> (Inl error, r)
                  | Inr result \<Rightarrow> (Inr (result, False), r)))
         \<and> (\<forall>t c r. \<not> isGreeting t \<and> \<not> isCalculation t \<and> \<not> isWeatherRequest t
                  \<and> \<not> isTranslationRequest t \<and> isStreamingRequest t \<longrightarrow>
               handleTask_try e t c r =
                 (Inr (fst (handleStreamingRequest e t c r), False),
                  snd (handleStreamingRequest e t c r)))
         \<and> (\<forall>t c r. \<not> isGreeting t \<and> \<not> isCalculation t \<and> \<not> isWeatherRequest t
                  \<and> \<not> isTranslationRequest t \<and> \<not> isStreamingRequest t
                  \<and> isPushNotificationRequest t \<longrightarrow>
               handleTask_try e t c r =
                 (Inr (fst (handlePushNotificationRequest e t c r), True),
                  snd (handlePushNotificationRequest e t c r)))
         \<and> (\<forall>t c r. \<not> isGreeting t \<and> \<not> isCalculation t \<and> \<not> isWeatherRequest t
                  \<and> \<not> isTranslationRequest t \<and> \<not> isStreamingRequest t
                  \<and> \<not> isPushNotificationRequest t \<longrightarrow>
               handleTask_try e t c r = (Inr (handleGeneralRequest e t, False), r))"
proof -
  have g: "isGreeting text"
    unfolding isGreeting_def using assms(1,2) by (rule list_ex_member)
  have k: "hasMathKeywords text"
    unfolding hasMathKeywords_def using assms(3,4) by (rule list_ex_member)
  have c: "isCalculation text" using k by (simp add: isCalculation_def)
  have h: "handleTask_try e text context s = (Inr (handleGreeting e text, False), s)"
    using g by (simp add: handleTask_try_def)
  have d: "handleTask_try e text context s \<noteq> (Inr (handleCalculation e text, False), s)"
    using greeting_differs [of e "text"] by (simp add: h)
  have chain:
    "\<And>t c r. isGreeting t \<longrightarrow>
               handleTask_try e t c r = (Inr (handleGreeting e t, False), r)"
    "\<And>t c r. \<not> isGreeting t \<and> isCalculation t \<longrightarrow>
               handleTask_try e t c r = (Inr (handleCalculation e t, False), r)"
    "\<And>t c r. \<not> isGreeting t \<and> \<not> isCalculation t \<and> isWeatherRequest t \<longrightarrow>
               handleTask_try e t c r = (Inr (handleWeatherRequest e (clock r) t, False), r)"
    "\<And>t c r. \<not> isGreeting t \<and> \<not> isCalculation t \<and> \<not> isWeatherRequest t
                  \<and> isTranslationRequest t \<longrightarrow>
               handleTask_try e t c r =
                 (case handleTranslationRequest e t of
                    Inl error \<Rightarrow> (Inl error, r)
                  | Inr result \<Rightarrow> (Inr (result, False), r))"
    "\<And>t c r. \<not> isGreeting t \<and> \<not> isCalculation t \<and> \<not> isWeatherRequest t
                  \<and> \<not> isTranslationRequest t \<and> isStreamingRequest t \<longrightarrow>
               handleTask_try e t c r =
                 (Inr (fst (handleStreamingRequest e t c r), False),
                  snd (handleStreamingRequest e t c r))"
    "\<And>t c r. \<not> isGreeting t \<and> \<not> isCalculation t \<and> \<not> isWeatherRequest t
                  \<and> \<not> isTranslationRequest t \<and> \<not> isStreamingRequest t
                  \<and> isPushNotificationRequest t \<longrightarrow>
               handleTask_try e t c r =
                 (Inr (fst (handlePushNotificationRequest e t c r), True),
                  snd (handlePushNotificationRequest e t c r))"
    "\<And>t c r. \<not> isGreeting t \<and> \<not> isCalculation t \<and> \<not> isWeatherRequest t
                  \<and> \<not> isTranslationRequest t \<and> \<not> isStreamingRequest t
                  \<and> \<not> isPushNotificationRequest t \<longrightarrow>
               handleTask_try e t c r = (Inr (handleGeneralRequest e t, False), r)"
    by (simp_all add: handleTask_try_def case_prod_beta)
  show ?thesis
    using g c h d chain by simp
qed

text \<open>
  The example of the specification, \<open>Hello, calculate 2+2\<close>, and the same request without
  the greeting, which goes to the calculation handler.
\<close>

theorem greeting_has_priority_witness:
  "''hello'' \<in> set greetings \<and> includes_str (toLowerCase ''Hello, calculate 2+2'') ''hello''
   \<and> ''calculate'' \<in> set mathKeywords
   \<and> includes_str (toLowerCase ''Hello, calculate 2+2'') ''calculate''
   \<and> isGreeting ''Hello, calculate 2+2'' \<and> isCalculation ''Hello, calculate 2+2''
   \<and> handleTask_try sampleEnv ''Hello, calculate 2+2'' (textRequest ''Hello, calculate 2+2'') initial
       = (Inr (handleGreeting sampleEnv ''Hello, calculate 2+2'', False), initial)
   \<and> handleTask_try sampleEnv ''Hello, calculate 2+2'' (textRequest ''Hello, calculate 2+2'') initial
       \<noteq> (Inr (handleCalculation sampleEnv ''Hello, calculate 2+2'', False), initial)
   \<and> \<not> isGreeting ''calculate 2+2'' \<and> isCalculation ''calculate 2+2''
   \<and> handleTask_try sampleEnv ''calculate 2+2'' (textRequest ''calculate 2+2'') initial
       = (Inr (handleCalculation sampleEnv ''calculate 2+2'', False), initial)"
  using greeting_has_priority [OF sample_greeting_word sample_includes_hello
          sample_math_keyword sample_includes_calculate,
          of sampleEnv "textRequest ''Hello, calculate 2+2''" initial]
        sample_greeting_word sample_includes_hello sample_math_keyword sample_includes_calculate
        sample_plain_calculation greeting_differs
  by simp


section \<open>Transport client\<close>

text \<open>
  Claim C9. With the empty string as bearer token, \<open>sendMessage\<close>,
  \<open>sendStreamingMessage\<close> and \<open>setPushNotificationConfig\<close> build the same request as
  without a token, and it has no \<open>Authorization\<close> header; a non-empty token is sent
  as \<open>Bearer <token>\<close>.
\<close>

theorem empty_token_sends_no_authorization:
  "sendMessage_request baseUrl messageId message (Some '''')
     = sendMessage_request baseUrl messageId message None
   \<and> map_of (req_headers (sendMessage_request baseUrl messageId message (Some '''')))
        ''Authorization'' = None
   \<and> sendStreamingMessage_request baseUrl messageId message (Some '''') pushNotification
     = sendStreamingMessage_request baseUrl messageId message None pushNotification
   \<and> map_of (req_headers
        (sendStreamingMessage_request baseUrl messageId message (Some '''') pushNotification))
        ''Authorization'' = None
   \<and> setPushNotificationConfig_request baseUrl tid config (Some '''')
     = setPushNotificationConfig_request baseUrl tid config None
   \<and> map_of (req_headers (setPushNotificationConfig_request baseUrl tid config (Some '''')))
        ''Authorization'' = None
   \<and> map_of (req_headers (sendMessage_request baseUrl messageId message (Some ''abc'')))
        ''Authorization'' = Some ''Bearer abc''"
  by (simp add: sendMessage_request_def sendStreamingMessage_request_def
        setPushNotificationConfig_request_def Let_def)

section \<open>Simulated weather\<close>

lemma binaryExponent_bounds:
  "0 < x \<Longrightarrow>
     2 powr of_int (binaryExponent x) \<le> x \<and> x < 2 powr of_int (binaryExponent x + 1)"
proof (induction x rule: binaryExponent.induct)
  case (1 x)
  show ?case
  proof (cases "2 \<le> x")
    case True
    then have ih: "2 powr of_int (binaryExponent (x / 2)) \<le> x / 2
                   \<and> x / 2 < 2 powr of_int (binaryExponent (x / 2) + 1)"
      using 1 by simp
    have e: "binaryExponent x = binaryExponent (x / 2) + 1"
      using True 1(3) by (subst binaryExponent.simps) simp
    show ?thesis using ih unfolding e by (simp add: powr_add field_simps)
  next
    case False
    show ?thesis
    proof (cases "x < 1")
      case True
      then have ih: "2 powr of_int (binaryExponent (2 * x)) \<le> 2 * x
                   \<and> 2 * x < 2 powr of_int (binaryExponent (2 * x) + 1)"
        using 1 False by simp
      have e: "binaryExponent x = binaryExponent (2 * x) - 1"
        using True False 1(3) by (subst binaryExponent.simps) simp
      show ?thesis using ih unfolding e by (simp add: powr_add powr_diff field_simps)
    next
      case nl: False
      have e: "binaryExponent x = 0"
        using nl False 1(3) by (subst binaryExponent.simps) simp
      show ?thesis using nl False unfolding e by simp
    qed
  qed
qed

lemma binaryExponent_log: "0 < x \<Longrightarrow> binaryExponent x = \<lfloor>log 2 x\<rfloor>"
proof -
  assume x: "0 < x"
  note b = binaryExponent_bounds [OF x]
  have "of_int (binaryExponent x) \<le> log 2 x"
    using b x by (simp add: le_log_iff)
  moreover have "log 2 x < of_int (binaryExponent x + 1)"
    using b x by (simp add: log_less_iff)
  ultimately have "\<lfloor>log 2 x\<rfloor> = binaryExponent x"
    by (intro floor_unique) simp_all
  then show ?thesis by simp
qed

lemma twoTo_powr: "twoTo k = 2 powr of_int k"
proof (cases "0 \<le> k")
  case True
  then have "(2::real) powr of_int k = 2 powr real (nat k)" by simp
  also have "\<dots> = 2 ^ nat k" by (rule powr_realpow) simp
  finally show ?thesis using True by (simp add: twoTo_def)
next
  case False
  then have "(2::real) powr of_int k = 2 powr (- real (nat (- k)))" by simp
  also have "\<dots> = 1 / 2 powr real (nat (- k))" by (simp only: powr_minus_divide)
  also have "2 powr real (nat (- k)) = (2::real) ^ nat (- k)" by (rule powr_realpow) simp
  finally show ?thesis using False by (simp add: twoTo_def)
qed

lemma ulp_powr: "ulp x = 2 powr of_int (max (binaryExponent \<bar>x\<bar>) (- 1022) - 52)"
  by (simp only: ulp_def twoTo_powr)

lemma ulp_of_pos: "0 < x \<Longrightarrow> ulp x = 2 powr of_int (max (binaryExponent x) (- 1022) - 52)"
  by (simp add: ulp_powr)

lemma ulp_pos: "0 < ulp x"
  by (simp add: ulp_powr)

lemma roundHalfEven_upper: "of_int (roundHalfEven y) \<le> y + 1 / 2"
proof -
  have "of_int \<lfloor>y\<rfloor> \<le> y" by simp
  moreover have "y < of_int \<lfloor>y\<rfloor> + 1" by linarith
  ultimately show ?thesis
    unfolding roundHalfEven_def Let_def by (auto; linarith)
qed

lemma roundHalfEven_nonneg: "0 \<le> y \<Longrightarrow> 0 \<le> roundHalfEven y"
proof -
  assume "0 \<le> y"
  then have "0 \<le> \<lfloor>y\<rfloor>" by simp
  then show ?thesis
    unfolding roundHalfEven_def Let_def by auto
qed

lemma roundHalfEven_of_int: "roundHalfEven (of_int m) = m"
  by (simp add: roundHalfEven_def)

lemma toDouble_nonneg: "0 \<le> x \<Longrightarrow> 0 \<le> toDouble x"
proof -
  assume x: "0 \<le> x"
  have "0 \<le> x / ulp x" using x ulp_pos [of x] by simp
  then have "0 \<le> roundHalfEven (x / ulp x)" by (rule roundHalfEven_nonneg)
  then show ?thesis
    using ulp_pos [of x] by (simp add: toDouble_def)
qed

lemma toDouble_upper: "toDouble x \<le> x + ulp x / 2"
proof (cases "x = 0")
  case True
  then show ?thesis using ulp_pos [of x] by (simp add: toDouble_def)
next
  case False
  have "of_int (roundHalfEven (x / ulp x)) \<le> x / ulp x + 1 / 2"
    by (rule roundHalfEven_upper)
  then have "of_int (roundHalfEven (x / ulp x)) * ulp x \<le> (x / ulp x + 1 / 2) * ulp x"
    using ulp_pos [of x] by (simp only: mult_le_cancel_right) simp
  also have "\<dots> = x + ulp x / 2"
    using ulp_pos [of x] by (simp add: algebra_simps)
  finally show ?thesis using False by (simp add: toDouble_def)
qed

lemma binaryExponent_less:
  assumes "0 < x" and "x < 2 powr of_int k"
  shows "binaryExponent x < k"
proof -
  have "log 2 x < of_int k"
    using assms by (simp add: log_less_iff)
  then have "\<lfloor>log 2 x\<rfloor> < k" by linarith
  then show ?thesis using assms(1) by (simp add: binaryExponent_log)
qed

lemma ulp_below:
  assumes "0 < x" and "x < 2 powr of_int k" and "- 1021 \<le> k"
  shows "ulp x \<le> 2 powr of_int (k - 53)"
proof -
  have "binaryExponent x < k" using assms(1,2) by (rule binaryExponent_less)
  then have "max (binaryExponent x) (- 1022) - 52 \<le> k - 53" using assms(3) by simp
  then show ?thesis
    unfolding ulp_of_pos [OF assms(1)] by (simp only: powr_le_cancel_iff of_int_le_iff)
qed

text \<open>The product of a draw below one and a factor that is not a power of two stays below the factor.\<close>

lemma floor_scaled_draw:
  assumes r: "0 \<le> r" "r \<le> 1 - 1 / 2 ^ 53"
    and n: "0 < n" "n < 2 powr of_int k" "2 powr of_int (k - 1) < n" "- 1021 \<le> k"
  shows "0 \<le> \<lfloor>toDouble (r * n)\<rfloor> \<and> toDouble (r * n) < n"
proof -
  have nonneg: "0 \<le> r * n" using r(1) n(1) by simp
  then have lo: "0 \<le> \<lfloor>toDouble (r * n)\<rfloor>" using toDouble_nonneg by simp
  have hi: "toDouble (r * n) < n"
  proof (cases "r = 0")
    case True
    then show ?thesis using n(1) by (simp add: toDouble_def)
  next
    case False
    then have pos: "0 < r * n" using r(1) n(1) by simp
    have "r * n \<le> (1 - 1 / 2 ^ 53) * n" using r(2) n(1) by simp
    then have le: "r * n \<le> n - n / 2 ^ 53" by (simp add: algebra_simps)
    then have "r * n < 2 powr of_int k" using n(1,2) by (smt (verit) divide_pos_pos zero_less_power)
    then have "ulp (r * n) \<le> 2 powr of_int (k - 53)" using pos n(4) ulp_below by blast
    also have "\<dots> = 2 powr of_int (k - 1) / 2 ^ 52"
    proof -
      have "of_int (k - 53) = of_int (k - 1) - (52 :: real)" by simp
      then show ?thesis by (simp only: powr_diff) simp
    qed
    finally have u: "ulp (r * n) / 2 \<le> 2 powr of_int (k - 1) / 2 ^ 53" by simp
    have "2 powr of_int (k - 1) / 2 ^ 53 < n / 2 ^ 53" using n(3) by (simp add: divide_strict_right_mono)
    then have "ulp (r * n) / 2 < n / 2 ^ 53" using u by linarith
    then show ?thesis using toDouble_upper [of "r * n"] le by linarith
  qed
  show ?thesis using lo hi by simp
qed

lemma double_below_one:
  assumes "isDouble r" and "0 \<le> r" and "r < 1"
  shows "r \<le> 1 - 1 / 2 ^ 53"
proof (cases "r = 0")
  case True
  then show ?thesis by simp
next
  case False
  then have pos: "0 < r" using assms(2) by simp
  have e: "binaryExponent r < 0"
    using binaryExponent_less [of r 0] pos assms(3) by simp
  define P :: real where "P = 2 ^ 53"
  have P: "0 < P" "P = of_int (2 ^ 53)" by (simp_all add: P_def)
  show ?thesis
  proof (cases "binaryExponent r = - 1")
    case True
    then have u: "ulp r = 1 / P"
      by (simp add: ulp_of_pos [OF pos] powr_neg_numeral P_def)
    define m where "m = roundHalfEven (r / ulp r)"
    have "toDouble r = r" using assms(1) by (simp add: isDouble_def)
    then have "of_int m * ulp r = r" using False by (simp add: toDouble_def m_def)
    then have rm: "r = of_int m / P" by (simp add: u)
    then have "of_int m / P < 1" using assms(3) by simp
    then have "of_int m < P" using P(1) by (simp add: pos_divide_less_eq)
    then have "(of_int m :: real) < of_int (2 ^ 53)" by (simp only: P(2))
    then have "m < 2 ^ 53" by (simp only: of_int_less_iff)
    then have "m \<le> 2 ^ 53 - 1" by simp
    then have "(of_int m :: real) \<le> of_int (2 ^ 53 - 1)" by (simp only: of_int_le_iff)
    then have "of_int m \<le> P - 1" by (simp add: P_def)
    then have "of_int m / P \<le> (P - 1) / P" using P(1) by (simp only: divide_right_mono less_imp_le)
    also have "(P - 1) / P = 1 - 1 / P" using P(1) by (simp add: diff_divide_distrib)
    finally show ?thesis unfolding rm P_def .
  next
    case False
    then have "binaryExponent r < - 1" using e by simp
    then have "\<lfloor>log 2 r\<rfloor> < - 1" using pos by (simp add: binaryExponent_log)
    then have "log 2 r < - 1" by linarith
    then have "r < 2 powr (- 1)" using pos by (simp add: log_less_iff)
    then have "r < 1 / 2" by (simp add: powr_neg_one)
    then show ?thesis by simp
  qed
qed

lemma binaryExponent_eq:
  assumes "0 < x" and "2 powr of_int k \<le> x" and "x < 2 powr of_int (k + 1)"
  shows "binaryExponent x = k"
proof -
  have "\<lfloor>log 2 x\<rfloor> = k"
    using assms by (simp add: floor_log_eq_powr_iff)
  then show ?thesis using assms(1) by (simp add: binaryExponent_log)
qed

lemma toDouble_exact:
  assumes "x \<noteq> 0" and "x / ulp x = of_int m"
  shows "toDouble x = x"
proof -
  have "toDouble x = of_int m * ulp x"
    using assms by (simp add: toDouble_def roundHalfEven_of_int)
  also have "\<dots> = x"
    using assms(2) ulp_pos [of x] by (simp add: field_simps)
  finally show ?thesis .
qed

lemma isDouble_half: "isDouble (1 / 2)"
proof -
  have e: "binaryExponent (1 / 2) = - 1"
    by (rule binaryExponent_eq) (simp_all add: powr_neg_one)
  have u: "ulp (1 / 2) = 1 / 2 ^ 53"
    by (simp add: ulp_powr e powr_neg_numeral)
  have "(1 / 2) / ulp (1 / 2) = of_int (2 ^ 52)"
    by (simp add: u)
  then have "toDouble (1 / 2) = 1 / 2"
    by (intro toDouble_exact) simp_all
  then show ?thesis by (simp add: isDouble_def)
qed

lemma toDouble_15: "toDouble 15 = 15"
proof -
  have e: "binaryExponent 15 = 3"
    by (rule binaryExponent_eq) simp_all
  have u: "ulp 15 = 1 / 2 ^ 49"
    by (simp add: ulp_powr e powr_neg_numeral)
  have "15 / ulp 15 = of_int (15 * 2 ^ 49)"
    by (simp add: u)
  then show ?thesis
    by (intro toDouble_exact) simp_all
qed

lemma toDouble_20: "toDouble 20 = 20"
proof -
  have e: "binaryExponent 20 = 4"
    by (rule binaryExponent_eq) simp_all
  have u: "ulp 20 = 1 / 2 ^ 48"
    by (simp add: ulp_powr e powr_neg_numeral)
  have "20 / ulp 20 = of_int (20 * 2 ^ 48)"
    by (simp add: u)
  then show ?thesis
    by (intro toDouble_exact) simp_all
qed

lemma toDouble_10: "toDouble 10 = 10"
proof -
  have e: "binaryExponent 10 = 3"
    by (rule binaryExponent_eq) simp_all
  have u: "ulp 10 = 1 / 2 ^ 49"
    by (simp add: ulp_powr e powr_neg_numeral)
  have "10 / ulp 10 = of_int (10 * 2 ^ 49)"
    by (simp add: u)
  then show ?thesis
    by (intro toDouble_exact) simp_all
qed

text \<open>
  Claim C10. When the draws of \<open>Math.random()\<close> are doubles in \<open>[0,1)\<close>, the
  temperature is an integer from 5 to 34, the humidity from 30 to 69 and the wind speed
  from 5 to 24; the values 35, 70 and 25 do not occur. The products are rounded to
  doubles as JavaScript rounds them.
\<close>

theorem weather_ranges:
  assumes "isDouble (random e 1)" "0 \<le> random e 1" "random e 1 < 1"
    and "isDouble (random e 2)" "0 \<le> random e 2" "random e 2 < 1"
    and "isDouble (random e 3)" "0 \<le> random e 3" "random e 3 < 1"
  shows "temperature (simulateWeatherAPI e now loc) \<in> {5 .. 34}
         \<and> humidity (simulateWeatherAPI e now loc) \<in> {30 .. 69}
         \<and> windSpeed (simulateWeatherAPI e now loc) \<in> {5 .. 24}
         \<and> temperature (simulateWeatherAPI e now loc) \<noteq> 35
         \<and> humidity (simulateWeatherAPI e now loc) \<noteq> 70
         \<and> windSpeed (simulateWeatherAPI e now loc) \<noteq> 25"
proof -
  have "0 \<le> \<lfloor>toDouble (random e 1 * 30)\<rfloor> \<and> toDouble (random e 1 * 30) < 30"
    by (rule floor_scaled_draw [OF assms(2) double_below_one [OF assms(1,2,3)], of 30 5])
       simp_all
  then have t: "0 \<le> \<lfloor>toDouble (random e 1 * 30)\<rfloor> \<and> \<lfloor>toDouble (random e 1 * 30)\<rfloor> \<le> 29"
    by (simp add: floor_less_iff)
  have "0 \<le> \<lfloor>toDouble (random e 2 * 40)\<rfloor> \<and> toDouble (random e 2 * 40) < 40"
    by (rule floor_scaled_draw [OF assms(5) double_below_one [OF assms(4,5,6)], of 40 6])
       simp_all
  then have h: "0 \<le> \<lfloor>toDouble (random e 2 * 40)\<rfloor> \<and> \<lfloor>toDouble (random e 2 * 40)\<rfloor> \<le> 39"
    by (simp add: floor_less_iff)
  have "0 \<le> \<lfloor>toDouble (random e 3 * 20)\<rfloor> \<and> toDouble (random e 3 * 20) < 20"
    by (rule floor_scaled_draw [OF assms(8) double_below_one [OF assms(7,8,9)], of 20 5])
       simp_all
  then have w: "0 \<le> \<lfloor>toDouble (random e 3 * 20)\<rfloor> \<and> \<lfloor>toDouble (random e 3 * 20)\<rfloor> \<le> 19"
    by (simp add: floor_less_iff)
  have T: "temperature (simulateWeatherAPI e now loc) = \<lfloor>toDouble (random e 1 * 30)\<rfloor> + 5"
    and H: "humidity (simulateWeatherAPI e now loc) = \<lfloor>toDouble (random e 2 * 40)\<rfloor> + 30"
    and W: "windSpeed (simulateWeatherAPI e now loc) = \<lfloor>toDouble (random e 3 * 20)\<rfloor> + 5"
    by (simp_all add: simulateWeatherAPI_def Let_def)
  have "5 \<le> temperature (simulateWeatherAPI e now loc)
        \<and> temperature (simulateWeatherAPI e now loc) \<le> 34"
    unfolding T using t by linarith
  moreover have "30 \<le> humidity (simulateWeatherAPI e now loc)
        \<and> humidity (simulateWeatherAPI e now loc) \<le> 69"
    unfolding H using h by linarith
  moreover have "5 \<le> windSpeed (simulateWeatherAPI e now loc)
        \<and> windSpeed (simulateWeatherAPI e now loc) \<le> 24"
    unfolding W using w by linarith
  ultimately show ?thesis by auto
qed

text \<open>With every draw one half the report is 20 degrees, 50 percent and 15 km/h.\<close>

theorem weather_ranges_witness:
  "isDouble (random sampleEnv 1) \<and> 0 \<le> random sampleEnv 1 \<and> random sampleEnv 1 < 1
   \<and> isDouble (random sampleEnv 2) \<and> 0 \<le> random sampleEnv 2 \<and> random sampleEnv 2 < 1
   \<and> isDouble (random sampleEnv 3) \<and> 0 \<le> random sampleEnv 3 \<and> random sampleEnv 3 < 1
   \<and> temperature (simulateWeatherAPI sampleEnv 0 ''London'') = 20
   \<and> humidity (simulateWeatherAPI sampleEnv 0 ''London'') = 50
   \<and> windSpeed (simulateWeatherAPI sampleEnv 0 ''London'') = 15
   \<and> temperature (simulateWeatherAPI sampleEnv 0 ''London'') \<in> {5 .. 34}
   \<and> humidity (simulateWeatherAPI sampleEnv 0 ''London'') \<in> {30 .. 69}
   \<and> windSpeed (simulateWeatherAPI sampleEnv 0 ''London'') \<in> {5 .. 24}"
proof -
  have r: "isDouble (random sampleEnv 1)" "0 \<le> random sampleEnv 1" "random sampleEnv 1 < 1"
    "isDouble (random sampleEnv 2)" "0 \<le> random sampleEnv 2" "random sampleEnv 2 < 1"
    "isDouble (random sampleEnv 3)" "0 \<le> random sampleEnv 3" "random sampleEnv 3 < 1"
    by (simp_all add: sampleEnv_def isDouble_half)
  have v: "temperature (simulateWeatherAPI sampleEnv 0 ''London'') = 20"
    "humidity (simulateWeatherAPI sampleEnv 0 ''London'') = 50"
    "windSpeed (simulateWeatherAPI sampleEnv 0 ''London'') = 15"
    by (simp_all add: simulateWeatherAPI_def Let_def sampleEnv_def
          toDouble_15 toDouble_20 toDouble_10)
  show ?thesis
    using r v weather_ranges [OF r, of 0 "''London''"] by simp
qed

section \<open>Calculation\<close>

lemma expression_15_times_7: "extractExpression ''Calculate 15 * 7'' = ''15*7''"
  by code_simp

lemma arith_eval_15_times_7: "arith_eval ''15*7'' = Some 105"
  by code_simp

lemma showInt_105: "showInt 105 = ''105''"
  by code_simp

lemma sample_empty_expression:
  "classify ''Calculate '' = Calculation" "extractExpression ''Calculate '' = []"
  by code_simp+

lemma sample_throwing_expression:
  "classify ''solve 2+'' = Calculation" "extractExpression ''solve 2+'' = ''2+''"
  "arith_eval ''2+'' = None"
  by code_simp+

lemma sample_throws:
  "js_eval sampleEnv ''2+'' = Throws (ErrorInstance ''Unexpected end of input'')"
  by (simp add: sampleEnv_def eval_with_def sample_throwing_expression)

text \<open>
  Claim C5, as stated, fails in one detail. Stripping the trigger phrase from
  \<open>Calculate 15 * 7\<close> leaves \<open>15 * 7\<close>, but the expression that is evaluated and
  reported is what remains after every character other than a digit, an operator, a
  parenthesis or a point has been removed, and the blanks go with them.
\<close>

theorem expression_keeps_no_spaces_counterexample:
  "extractExpression ''Calculate 15 * 7'' \<noteq> ''15 * 7''"
  by (simp add: expression_15_times_7)

text \<open>
  Claim C5, amended. For the input \<open>Calculate 15 * 7\<close> the calculation handler strips
  the trigger phrase, which leaves \<open>15 * 7\<close>, discards the other characters, which
  leaves the expression \<open>15*7\<close>, evaluates it to 105, and returns a completed result
  with \<open>creditsUsed = 2\<close>, the expression \<open>15*7\<close> and the result 105.
\<close>

theorem calculate_15_times_7:
  "classify ''Calculate 15 * 7'' = Calculation
   \<and> replace_first calcTriggerRegex ''Calculate 15 * 7'' = ''15 * 7''
   \<and> extractExpression ''Calculate 15 * 7'' = ''15*7''
   \<and> eval_with other ''15*7'' = Returns (JNum 105)
   \<and> handleCalculation (e\<lparr>js_eval := eval_with other\<rparr>) ''Calculate 15 * 7'' =
       \<lparr>parts = [TextPart (barChart @ '' Calculation Result:'' @ nl @ ''15*7 = 105'')],
        metadata = Some [(''creditsUsed'', JNum 2),
                         (''planId'', JStr (planId e)),
                         (''costDescription'', JStr ''Mathematical calculation''),
                         (''operationType'', JStr ''calculation''),
                         (''expression'', JStr ''15*7''),
                         (''result'', JNum 105)],
        state = Some Completed\<rparr>"
proof -
  have c: "classify ''Calculate 15 * 7'' = Calculation" by code_simp
  have r: "replace_first calcTriggerRegex ''Calculate 15 * 7'' = ''15 * 7''" by code_simp
  have ev: "eval_with other ''15*7'' = Returns (JNum 105)"
    by (simp add: eval_with_def arith_eval_15_times_7)
  have h: "handleCalculation (e\<lparr>js_eval := eval_with other\<rparr>) ''Calculate 15 * 7'' =
       \<lparr>parts = [TextPart (barChart @ '' Calculation Result:'' @ nl @ ''15*7 = 105'')],
        metadata = Some [(''creditsUsed'', JNum 2),
                         (''planId'', JStr (planId e)),
                         (''costDescription'', JStr ''Mathematical calculation''),
                         (''operationType'', JStr ''calculation''),
                         (''expression'', JStr ''15*7''),
                         (''result'', JNum 105)],
        state = Some Completed\<rparr>"
    unfolding handleCalculation_def expression_15_times_7 Let_def
    by (simp add: ev showInt_105)
  show ?thesis using c r expression_15_times_7 ev h by blast
qed

theorem calculate_15_times_7_witness:
  "handleCalculation sampleEnv ''Calculate 15 * 7'' =
       \<lparr>parts = [TextPart (barChart @ '' Calculation Result:'' @ nl @ ''15*7 = 105'')],
        metadata = Some [(''creditsUsed'', JNum 2),
                         (''planId'', JStr ''plan''),
                         (''costDescription'', JStr ''Mathematical calculation''),
                         (''operationType'', JStr ''calculation''),
                         (''expression'', JStr ''15*7''),
                         (''result'', JNum 105)],
        state = Some Completed\<rparr>"
  using calculate_15_times_7
          [of "\<lambda>expression. Throws (ErrorInstance ''Unexpected end of input'')" sampleEnv]
  by (simp add: sampleEnv_def)

text \<open>
  The white space after the trigger word may be a no-break space, \<open>U+00A0\<close>: it is
  stripped with the trigger, and nothing or the expression \<open>2\<close> is left.
\<close>

lemma sample_no_break_space:
  "classify (''1 calculate'' @ [CHR 0xC2, CHR 0xA0]) = Calculation"
  "extractExpression (''1 calculate'' @ [CHR 0xC2, CHR 0xA0]) = []"
  "extractExpression (''( calculate'' @ [CHR 0xC2, CHR 0xA0] @ ''2'') = ''2''"
  by code_simp+

text \<open>
  Claim C6. For a text routed to the calculation handler, when nothing is left of the
  expression after stripping, or when evaluating it throws, the handler returns a failed
  result with \<open>creditsUsed = 1\<close> and an error message, and \<open>handleTask\<close> returns that
  result normally: nothing is thrown past the handler.
\<close>

theorem calculation_input_errors:
  assumes "classify text = Calculation"
    and "extractExpression text = [] \<or> (\<exists>error. js_eval e (extractExpression text) = Throws error)"
  shows "state (handleCalculation e text) = Some Failed
         \<and> creditsUsed (metadata (handleCalculation e text)) = Some 1
         \<and> parts (handleCalculation e text) =
             [TextPart (if extractExpression text = []
                        then ''Error: Please provide a valid mathematical expression''
                        else ''Error: Invalid mathematical expression'')]
         \<and> handleTask_try e text context s = (Inr (handleCalculation e text, False), s)
         \<and> (msg_parts (userMessage context) = Some (TextPart text # ps) \<longrightarrow>
              handleTask e context s = (Inr (handleCalculation e text, False), s))"
proof -
  have route: "\<not> isGreeting text \<and> isCalculation text"
    using assms(1) by (simp add: classify_def split: if_splits)
  have t: "handleTask_try e text context s = (Inr (handleCalculation e text, False), s)"
    using route by (simp add: handleTask_try_def)
  have h: "msg_parts (userMessage context) = Some (TextPart text # ps) \<longrightarrow>
              handleTask e context s = (Inr (handleCalculation e text, False), s)"
    by (simp add: handleTask_def t)
  show ?thesis
  proof (cases "extractExpression text = []")
    case True
    then show ?thesis using t h
      by (simp add: handleCalculation_def creditsUsed_def)
  next
    case False
    then obtain error where "js_eval e (extractExpression text) = Throws error"
      using assms(2) by blast
    then show ?thesis using False t h
      by (simp add: handleCalculation_def creditsUsed_def Let_def)
  qed
qed

text \<open>
  The inputs \<open>Calculate \<close>, with no expression, \<open>solve 2+\<close>, which does not parse, and
  \<open>1 calculate\<close> followed by a no-break space, where the digit goes with the trigger.
\<close>

theorem calculation_input_errors_witness:
  "(classify ''Calculate '' = Calculation \<and> extractExpression ''Calculate '' = []
    \<and> state (handleCalculation sampleEnv ''Calculate '') = Some Failed
    \<and> creditsUsed (metadata (handleCalculation sampleEnv ''Calculate '')) = Some 1
    \<and> parts (handleCalculation sampleEnv ''Calculate '') =
        [TextPart ''Error: Please provide a valid mathematical expression'']
    \<and> handleTask sampleEnv (textRequest ''Calculate '') initial =
        (Inr (handleCalculation sampleEnv ''Calculate '', False), initial))
   \<and> (classify ''solve 2+'' = Calculation \<and> extractExpression ''solve 2+'' = ''2+''
    \<and> js_eval sampleEnv ''2+'' = Throws (ErrorInstance ''Unexpected end of input'')
    \<and> state (handleCalculation sampleEnv ''solve 2+'') = Some Failed
    \<and> creditsUsed (metadata (handleCalculation sampleEnv ''solve 2+'')) = Some 1
    \<and> parts (handleCalculation sampleEnv ''solve 2+'') =
        [TextPart ''Error: Invalid mathematical expression'']
    \<and> handleTask sampleEnv (textRequest ''solve 2+'') initial =
        (Inr (handleCalculation sampleEnv ''solve 2+'', False), initial))
   \<and> (classify (''1 calculate'' @ [CHR 0xC2, CHR 0xA0]) = Calculation
    \<and> extractExpression (''1 calculate'' @ [CHR 0xC2, CHR 0xA0]) = []
    \<and> state (handleCalculation sampleEnv (''1 calculate'' @ [CHR 0xC2, CHR 0xA0])) = Some Failed
    \<and> creditsUsed (metadata (handleCalculation sampleEnv (''1 calculate'' @ [CHR 0xC2, CHR 0xA0])))
        = Some 1)"
proof -
  have hyp1: "extractExpression ''Calculate '' = []
     \<or> (\<exists>error. js_eval sampleEnv (extractExpression ''Calculate '') = Throws error)"
    by (simp add: sample_empty_expression)
  have hyp2: "extractExpression ''solve 2+'' = []
     \<or> (\<exists>error. js_eval sampleEnv (extractExpression ''solve 2+'') = Throws error)"
    by (simp add: sample_throwing_expression sample_throws)
  have first: "classify ''Calculate '' = Calculation \<and> extractExpression ''Calculate '' = []
    \<and> state (handleCalculation sampleEnv ''Calculate '') = Some Failed
    \<and> creditsUsed (metadata (handleCalculation sampleEnv ''Calculate '')) = Some 1
    \<and> parts (handleCalculation sampleEnv ''Calculate '') =
        [TextPart ''Error: Please provide a valid mathematical expression'']
    \<and> handleTask sampleEnv (textRequest ''Calculate '') initial =
        (Inr (handleCalculation sampleEnv ''Calculate '', False), initial)"
    using calculation_input_errors [OF sample_empty_expression(1) hyp1,
            of "textRequest ''Calculate ''" initial "[]"]
    by (simp add: sample_empty_expression textRequest_def)
  have second: "classify ''solve 2+'' = Calculation \<and> extractExpression ''solve 2+'' = ''2+''
    \<and> js_eval sampleEnv ''2+'' = Throws (ErrorInstance ''Unexpected end of input'')
    \<and> state (handleCalculation sampleEnv ''solve 2+'') = Some Failed
    \<and> creditsUsed (metadata (handleCalculation sampleEnv ''solve 2+'')) = Some 1
    \<and> parts (handleCalculation sampleEnv ''solve 2+'') =
        [TextPart ''Error: Invalid mathematical expression'']
    \<and> handleTask sampleEnv (textRequest ''solve 2+'') initial =
        (Inr (handleCalculation sampleEnv ''solve 2+'', False), initial)"
    using calculation_input_errors [OF sample_throwing_expression(1) hyp2,
            of "textRequest ''solve 2+''" initial "[]"]
    by (simp add: sample_throwing_expression sample_throws textRequest_def)
  have hyp3: "extractExpression (''1 calculate'' @ [CHR 0xC2, CHR 0xA0]) = []
     \<or> (\<exists>error. js_eval sampleEnv (extractExpression (''1 calculate'' @ [CHR 0xC2, CHR 0xA0]))
                  = Throws error)"
    by (simp only: sample_no_break_space(2) simp_thms)
  have third: "classify (''1 calculate'' @ [CHR 0xC2, CHR 0xA0]) = Calculation
    \<and> extractExpression (''1 calculate'' @ [CHR 0xC2, CHR 0xA0]) = []
    \<and> state (handleCalculation sampleEnv (''1 calculate'' @ [CHR 0xC2, CHR 0xA0])) = Some Failed
    \<and> creditsUsed (metadata (handleCalculation sampleEnv (''1 calculate'' @ [CHR 0xC2, CHR 0xA0])))
        = Some 1"
    using calculation_input_errors [OF sample_no_break_space(1) hyp3,
            of "textRequest ''x''" initial "[]"]
      sample_no_break_space(1,2)
    by blast
  show ?thesis using first second third by blast
qed

section \<open>Greeting\<close>

lemma sample_hi_there:
  "classify ''hi there'' = Greeting" "detectedGreeting ''hi there'' = Some ''hi''"
  "isGreeting ''hi there''"
  by code_simp+

lemma planId_sampleEnv: "planId sampleEnv = ''plan''"
  by (simp add: sampleEnv_def)

lemma sample_hello_there: "classify ''Hello there!'' = Greeting"
  by code_simp

text \<open>
  Claim C8, as stated, fails: the greeting handler does not echo the greeting word it
  detected. For \<open>hi there\<close> the detected word is \<open>hi\<close>, and the text of the result
  starts with the whole input \<open>hi there\<close>.
\<close>

theorem greeting_echoes_word_counterexample:
  "classify ''hi there'' = Greeting \<and> detectedGreeting ''hi there'' = Some ''hi''
   \<and> parts (handleGreeting sampleEnv ''hi there'') \<noteq> [TextPart (''hi'' @ capabilitySummary)]
   \<and> parts (handleGreeting sampleEnv ''hi there'') = [TextPart (''hi there'' @ capabilitySummary)]"
  by (simp add: sample_hi_there handleGreeting_def)

text \<open>
  Claim C8, amended. For every text routed to the greeting handler the result is
  completed, has \<open>creditsUsed = 1\<close>, and its text is the whole input text followed by
  the static capability summary.
\<close>

theorem greeting_echoes_whole_text:
  assumes "classify text = Greeting"
  shows "handleGreeting e text =
           \<lparr>parts = [TextPart (text @ capabilitySummary)],
            metadata = Some [(''creditsUsed'', JNum 1),
                             (''planId'', JStr (planId e)),
                             (''costDescription'', JStr ''Basic greeting response''),
                             (''operationType'', JStr ''greeting'')],
            state = Some Completed\<rparr>
         \<and> creditsUsed (metadata (handleGreeting e text)) = Some 1
         \<and> handleTask_try e text context s = (Inr (handleGreeting e text, False), s)"
proof -
  have g: "isGreeting text"
    using assms by (simp add: classify_def split: if_splits)
  then show ?thesis
    by (simp add: handleGreeting_def creditsUsed_def handleTask_try_def)
qed

theorem greeting_echoes_whole_text_witness:
  "classify ''Hello there!'' = Greeting
   \<and> handleGreeting sampleEnv ''Hello there!'' =
           \<lparr>parts = [TextPart (''Hello there!'' @ capabilitySummary)],
            metadata = Some [(''creditsUsed'', JNum 1),
                             (''planId'', JStr ''plan''),
                             (''costDescription'', JStr ''Basic greeting response''),
                             (''operationType'', JStr ''greeting'')],
            state = Some Completed\<rparr>
   \<and> creditsUsed (metadata (handleGreeting sampleEnv ''Hello there!'')) = Some 1"
  using greeting_echoes_whole_text [OF sample_hello_there, of sampleEnv] sample_hello_there
  by (simp add: planId_sampleEnv creditsUsed_def)

section \<open>Runs of the executor\<close>

lemma sleep_no_timers: "timers s = [] \<Longrightarrow> sleep e ms s = s\<lparr>clock := clock s + ms\<rparr>"
  by (simp add: sleep_def advance_def)

lemma streamingLoop_unfold:
  "timers s = [] \<Longrightarrow>
   streamingLoop e i n d tid cid s =
     s\<lparr>published := published s @
          map (\<lambda>j. StatusUpdate (workingUpdate tid cid
                 (streamingMessageText j n)
                 (clock s + (j - i) * d)))
              [i ..< Suc n],
       clock := clock s + (Suc n - i) * d\<rparr>"
proof (induction e i n d tid cid s rule: streamingLoop.induct)
  case (1 e i n d tid cid s)
  show ?case
  proof (cases "i \<le> n")
    case False
    then show ?thesis by (simp add: streamingLoop.simps)
  next
    case True
    let ?ev = "StatusUpdate (workingUpdate tid cid
                 (streamingMessageText i n) (clock s))"
    let ?s' = "sleep e d (publish ?ev s)"
    have t: "timers (publish ?ev s) = []" using "1.prems" by (simp add: publish_def)
    have s': "?s' = s\<lparr>published := published s @ [?ev], clock := clock s + d\<rparr>"
      using t by (simp add: sleep_no_timers publish_def)
    have t': "timers ?s' = []" unfolding s' using "1.prems" by simp
    have step: "streamingLoop e i n d tid cid s = streamingLoop e (i + 1) n d tid cid ?s'"
      using True by (subst streamingLoop.simps) simp
    have upt: "[i ..< Suc n] = i # [Suc i ..< Suc n]"
      using True by (simp add: upt_conv_Cons)
    have idx: "\<And>j. Suc i \<le> j \<Longrightarrow> (j - i) * d = d + (j - Suc i) * d"
    proof -
      fix j assume "Suc i \<le> j"
      then have "j - i = Suc (j - Suc i)" by simp
      then show "(j - i) * d = d + (j - Suc i) * d" by simp
    qed
    have clk: "(Suc n - i) * d = d + (n - i) * d"
      using True by (simp add: Suc_diff_le)
    have maps:
      "map (\<lambda>j. StatusUpdate (workingUpdate tid cid (streamingMessageText j n)
                   (clock s + (j - i) * d))) [Suc i ..< Suc n] =
       map (\<lambda>j. StatusUpdate (workingUpdate tid cid (streamingMessageText j n)
                   (clock s + d + (j - Suc i) * d))) [Suc i ..< Suc n]"
      by (rule map_cong [OF refl]) (simp del: upt_Suc add: idx add.assoc)
    have ih: "streamingLoop e (i + 1) n d tid cid ?s' =
          ?s'\<lparr>published := published ?s' @
          map (\<lambda>j. StatusUpdate (workingUpdate tid cid (streamingMessageText j n)
                 (clock ?s' + (j - (i + 1)) * d)))
              [i + 1 ..< Suc n],
       clock := clock ?s' + (Suc n - (i + 1)) * d\<rparr>"
      using "1.IH"[OF True t'] .
    show ?thesis
      unfolding step ih unfolding s' upt
      by (simp del: upt_Suc add: clk add.assoc maps)
  qed
qed

lemma showNat_10: "showNat 10 = ''10''"
  by code_simp

lemma classify_Streaming:
  "classify text = Streaming \<Longrightarrow>
     \<not> isGreeting text \<and> \<not> isCalculation text \<and> \<not> isWeatherRequest text
     \<and> \<not> isTranslationRequest text \<and> isStreamingRequest text"
  by (simp add: classify_def split: if_splits)

lemma classify_PushNotification:
  "classify text = PushNotification \<Longrightarrow>
     \<not> isGreeting text \<and> \<not> isCalculation text \<and> \<not> isWeatherRequest text
     \<and> \<not> isTranslationRequest text \<and> \<not> isStreamingRequest text
     \<and> isPushNotificationRequest text"
  by (simp add: classify_def split: if_splits)

lemma handleStreamingRequest_state:
  "timers s = [] \<Longrightarrow>
   snd (handleStreamingRequest e text context s) =
     s\<lparr>published := published s @
          map (\<lambda>j. StatusUpdate (workingUpdate (taskId context) (contextId context)
                 (streamingMessageText j 10) (clock s + (j - 1) * 1000)))
              [1 ..< 11]
          @ [StatusUpdate (workingUpdate (taskId context) (contextId context)
               ''Streaming finished!'' (clock s + 10000))],
       clock := clock s + 10000\<rparr>"
  by (simp add: handleStreamingRequest_def Let_def streamingLoop_unfold publish_def del: upt_Suc)

lemma handleStreamingRequest_result:
  "fst (handleStreamingRequest e text context s) =
     \<lparr>parts = [TextPart (rocket @ '' Streaming started! You will receive 60 messages ''
                                @ ''via SSE (one per second).'' @ nl
                                @ ''Check your /message/stream subscription.'')],
      metadata = Some [(''creditsUsed'', JNum 5),
                       (''planId'', JStr (planId e)),
                       (''costDescription'', JStr ''Streaming response''),
                       (''operationType'', JStr ''streaming''),
                       (''streamingType'', JStr ''text'')],
      state = Some Completed\<rparr>"
  by (simp add: handleStreamingRequest_def Let_def)

lemma execute_streaming:
  assumes "msg_parts (userMessage context) = Some ps"
    and "classify (firstPartText ps) = Streaming"
    and "timers s = []"
  shows "execute e context s =
     s\<lparr>published := published s @
        TaskEvent (case existingTask context of
                     Some t \<Rightarrow> t
                   | None \<Rightarrow> submittedTask context (clock s)) #
        map (\<lambda>j. StatusUpdate (workingUpdate (taskId context) (contextId context)
                 (streamingMessageText j 10) (clock s + (j - 1) * 1000)))
            [1 ..< 11]
        @ [StatusUpdate (workingUpdate (taskId context) (contextId context)
               ''Streaming finished!'' (clock s + 10000)),
           StatusUpdate (finalUpdate context
               (fst (handleStreamingRequest e (firstPartText ps) context s))
               (clock s + 10000))],
      finishedCalls := Suc (finishedCalls s),
      clock := clock s + 10000\<rparr>"
proof -
  let ?text = "firstPartText ps"
  let ?task = "case existingTask context of
                 Some t \<Rightarrow> t
               | None \<Rightarrow> submittedTask context (clock s)"
  let ?s1 = "publish (TaskEvent ?task) s"
  have t1: "timers ?s1 = []" using assms(3) by (simp add: publish_def)
  have res: "fst (handleStreamingRequest e ?text context ?s1)
           = fst (handleStreamingRequest e ?text context s)"
    by (simp only: handleStreamingRequest_result)
  have tr: "handleTask_try e ?text context ?s1 =
     (Inr (fst (handleStreamingRequest e ?text context s), False),
      snd (handleStreamingRequest e ?text context ?s1))"
    using classify_Streaming [OF assms(2)] res
    by (simp add: handleTask_try_def case_prod_beta)
  have ht: "handleTask e context ?s1 =
     (Inr (fst (handleStreamingRequest e ?text context s), False),
      snd (handleStreamingRequest e ?text context ?s1))"
    by (simp add: handleTask_def assms(1) tr)
  have ex: "execute e context s =
      finished (publish (StatusUpdate (finalUpdate context
          (fst (handleStreamingRequest e ?text context s))
          (clock (snd (handleStreamingRequest e ?text context ?s1)))))
        (snd (handleStreamingRequest e ?text context ?s1)))"
    by (simp add: execute_def execute_try_def Let_def ht)
  show ?thesis
    unfolding ex handleStreamingRequest_state [OF t1]
    by (simp add: finished_def publish_def del: upt_Suc)
qed

lemma handlePushNotificationRequest_eq:
  "handlePushNotificationRequest e text context s =
     (\<lparr>parts = [TextPart pushWaitingText], metadata = None, state = Some Working\<rparr>,
      s\<lparr>published := published s @
           [StatusUpdate (workingUpdate (taskId context) (contextId context) pushWaitingText
              (clock s))],
        timers := add_timer (clock s + 10000,
                     AfterPushConfigWait (taskId context) (contextId context)) (timers s)\<rparr>)"
  by (simp add: handlePushNotificationRequest_def Let_def finalizePushNotificationTask_def
        simulateWaitForPushConfig_def setTimeout_def publish_def)

lemma execute_push:
  assumes "msg_parts (userMessage context) = Some ps"
    and "classify (firstPartText ps) = PushNotification"
    and "timers s = []"
  shows "execute e context s =
     s\<lparr>published := published s @
        [TaskEvent (case existingTask context of
                      Some t \<Rightarrow> t
                    | None \<Rightarrow> submittedTask context (clock s)),
         StatusUpdate (workingUpdate (taskId context) (contextId context) pushWaitingText
            (clock s))],
      timers := [(clock s + 10000,
                  AfterPushConfigWait (taskId context) (contextId context))]\<rparr>"
proof -
  let ?text = "firstPartText ps"
  let ?task = "case existingTask context of
                 Some t \<Rightarrow> t
               | None \<Rightarrow> submittedTask context (clock s)"
  let ?s1 = "publish (TaskEvent ?task) s"
  have tr: "handleTask_try e ?text context ?s1 =
     (Inr (fst (handlePushNotificationRequest e ?text context ?s1), True),
      snd (handlePushNotificationRequest e ?text context ?s1))"
    using classify_PushNotification [OF assms(2)]
    by (simp add: handleTask_try_def case_prod_beta)
  have ht: "handleTask e context ?s1 =
     (Inr (fst (handlePushNotificationRequest e ?text context ?s1), True),
      snd (handlePushNotificationRequest e ?text context ?s1))"
    by (simp add: handleTask_def assms(1) tr)
  have ex: "execute e context s = snd (handlePushNotificationRequest e ?text context ?s1)"
    by (simp add: execute_def execute_try_def Let_def ht)
  show ?thesis
    unfolding ex handlePushNotificationRequest_eq
    using assms(3) by (simp add: publish_def)
qed

lemma settle_no_timers: "timers s = [] \<Longrightarrow> settle e s = s"
  by (simp add: settle_def)

lemma settle_push:
  "timers s = [(due, AfterPushConfigWait tid cid)] \<Longrightarrow>
   settle e s =
     s\<lparr>published := published s @ [StatusUpdate (pushCompletedUpdate e tid cid due)],
       finishedCalls := Suc (finishedCalls s),
       clock := due,
       timers := []\<rparr>"
  by (simp add: settle_def advance_def publish_def finished_def)

lemma execute_single_result:
  assumes "\<And>s'. clock s' = clock s \<Longrightarrow> handleTask e context s' = (Inr (result, False), s')"
  shows "execute e context s =
     s\<lparr>published := published s @
        [TaskEvent (case existingTask context of
                      Some t \<Rightarrow> t
                    | None \<Rightarrow> submittedTask context (clock s)),
         StatusUpdate (finalUpdate context result (clock s))],
      finishedCalls := Suc (finishedCalls s)\<rparr>"
proof -
  let ?task = "case existingTask context of
                 Some t \<Rightarrow> t
               | None \<Rightarrow> submittedTask context (clock s)"
  let ?s1 = "publish (TaskEvent ?task) s"
  have c: "clock ?s1 = clock s" by (simp add: publish_def)
  have ht: "handleTask e context ?s1 = (Inr (result, False), ?s1)"
    by (rule assms [OF c])
  have ex: "execute e context s =
      finished (publish (StatusUpdate (finalUpdate context result (clock ?s1))) ?s1)"
    by (simp add: execute_def execute_try_def Let_def ht)
  show ?thesis
    unfolding ex by (simp add: finished_def publish_def)
qed

lemma execute_without_parts:
  assumes "msg_parts (userMessage context) = None"
  shows "execute e context s =
     s\<lparr>published := published s @
        [TaskEvent (case existingTask context of
                      Some t \<Rightarrow> t
                    | None \<Rightarrow> submittedTask context (clock s)),
         StatusUpdate (errorUpdate context
            (ErrorInstance missingPartsMessage) (clock s))],
      finishedCalls := Suc (finishedCalls s)\<rparr>"
  by (simp add: execute_def execute_try_def Let_def handleTask_def assms finished_def
        publish_def)

lemma streamingTexts:
  "map (\<lambda>i. streamingMessageText i 10) [1 ..< 11] =
     [''Streaming message 1/10'', ''Streaming message 2/10'', ''Streaming message 3/10'',
      ''Streaming message 4/10'', ''Streaming message 5/10'', ''Streaming message 6/10'',
      ''Streaming message 7/10'', ''Streaming message 8/10'', ''Streaming message 9/10'',
      ''Streaming message 10/10'']"
  by code_simp

lemma run_streaming:
  assumes "msg_parts (userMessage context) = Some ps"
    and "classify (firstPartText ps) = Streaming"
  shows "run e context =
     \<lparr>published =
        TaskEvent (case existingTask context of
                     Some t \<Rightarrow> t
                   | None \<Rightarrow> submittedTask context 0) #
        map (\<lambda>j. StatusUpdate (workingUpdate (taskId context) (contextId context)
                 (streamingMessageText j 10) ((j - 1) * 1000)))
            [1 ..< 11]
        @ [StatusUpdate (workingUpdate (taskId context) (contextId context)
               ''Streaming finished!'' 10000),
           StatusUpdate (finalUpdate context
               (fst (handleStreamingRequest e (firstPartText ps) context initial)) 10000)],
      finishedCalls = 1,
      clock = 10000,
      timers = []\<rparr>"
proof -
  have t: "timers initial = []" by (simp add: initial_def)
  show ?thesis
    unfolding run_def execute_streaming [OF assms t]
    by (simp add: settle_def initial_def del: upt_Suc split: option.split)
qed

lemma run_push:
  assumes "msg_parts (userMessage context) = Some ps"
    and "classify (firstPartText ps) = PushNotification"
  shows "execute e context initial =
     \<lparr>published =
        [TaskEvent (case existingTask context of
                      Some t \<Rightarrow> t
                    | None \<Rightarrow> submittedTask context 0),
         StatusUpdate (workingUpdate (taskId context) (contextId context) pushWaitingText 0)],
      finishedCalls = 0,
      clock = 0,
      timers = [(10000, AfterPushConfigWait (taskId context) (contextId context))]\<rparr>"
   and "run e context =
     \<lparr>published =
        [TaskEvent (case existingTask context of
                      Some t \<Rightarrow> t
                    | None \<Rightarrow> submittedTask context 0),
         StatusUpdate (workingUpdate (taskId context) (contextId context) pushWaitingText 0),
         StatusUpdate (pushCompletedUpdate e (taskId context) (contextId context) 10000)],
      finishedCalls = 1,
      clock = 10000,
      timers = []\<rparr>"
proof -
  have t: "timers initial = []" by (simp add: initial_def)
  show ex: "execute e context initial =
     \<lparr>published =
        [TaskEvent (case existingTask context of
                      Some t \<Rightarrow> t
                    | None \<Rightarrow> submittedTask context 0),
         StatusUpdate (workingUpdate (taskId context) (contextId context) pushWaitingText 0)],
      finishedCalls = 0,
      clock = 0,
      timers = [(10000, AfterPushConfigWait (taskId context) (contextId context))]\<rparr>"
    unfolding execute_push [OF assms t] by (simp add: initial_def split: option.split)
  show "run e context =
     \<lparr>published =
        [TaskEvent (case existingTask context of
                      Some t \<Rightarrow> t
                    | None \<Rightarrow> submittedTask context 0),
         StatusUpdate (workingUpdate (taskId context) (contextId context) pushWaitingText 0),
         StatusUpdate (pushCompletedUpdate e (taskId context) (contextId context) 10000)],
      finishedCalls = 1,
      clock = 10000,
      timers = []\<rparr>"
    unfolding run_def ex by (simp add: settle_push)
qed

lemma run_without_parts:
  assumes "msg_parts (userMessage context) = None"
  shows "run e context =
     \<lparr>published =
        [TaskEvent (case existingTask context of
                      Some t \<Rightarrow> t
                    | None \<Rightarrow> submittedTask context 0),
         StatusUpdate (errorUpdate context
            (ErrorInstance missingPartsMessage) 0)],
      finishedCalls = 1,
      clock = 0,
      timers = []\<rparr>"
  unfolding run_def execute_without_parts [OF assms]
  by (simp add: settle_def initial_def split: option.split)

lemma credits_greeting: "creditsUsed (metadata (handleGreeting e text)) = Some 1"
  by (simp add: handleGreeting_def creditsUsed_def)

lemma credits_calculation:
  "creditsUsed (metadata (handleCalculation e text)) = Some 1
   \<or> creditsUsed (metadata (handleCalculation e text)) = Some 2"
  by (simp add: handleCalculation_def creditsUsed_def Let_def split: eval_outcome.split)

lemma credits_weather:
  "creditsUsed (metadata (handleWeatherRequest e now text)) = Some 1
   \<or> creditsUsed (metadata (handleWeatherRequest e now text)) = Some 3"
  by (simp add: handleWeatherRequest_def creditsUsed_def Let_def)

lemma credits_translation:
  "handleTranslationRequest e text = Inr result \<Longrightarrow>
     creditsUsed (metadata result) = Some 1 \<or> creditsUsed (metadata result) = Some 4"
  by (auto simp add: handleTranslationRequest_def creditsUsed_def
        split: option.splits sum.splits)

lemma credits_processing_error:
  "creditsUsed (metadata (processingErrorResult e error)) = Some 1"
  by (simp add: processingErrorResult_def creditsUsed_def)

text \<open>
  A request that reaches the \<open>catch\<close> of \<open>handleTask\<close>: the language \<open>constructor\<close> finds the
  inherited property of the translation table, and the text \<open>caller\<close> a property of it that
  throws when read.
\<close>

lemma sample_lookup_throws:
  "fst (handleTask sampleEnv
          (textRequest (''translate '' @ dquote @ ''caller'' @ dquote @ '' to constructor''))
          initial)
   = Inr (\<lparr>parts = [TextPart ''Error: restricted property''],
           metadata = Some [(''creditsUsed'', JNum 1), (''planId'', JStr ''plan''),
                            (''errorType'', JStr ''processing_error'')],
           state = Some Failed\<rparr>, False)"
  by code_simp

text \<open>\<open>handleTask\<close> on a message with parts: the outcome of the \<open>try\<close> block, caught.\<close>

lemma handleTask_with_parts:
  "msg_parts (userMessage context) = Some ps \<Longrightarrow>
   handleTask e context s =
     (case handleTask_try e (firstPartText ps) context s of
        (Inr r, s') \<Rightarrow> (Inr r, s')
      | (Inl error, s') \<Rightarrow> (Inr (processingErrorResult e error, False), s'))"
  by (simp add: handleTask_def)

lemma credits_general: "creditsUsed (metadata (handleGeneralRequest e text)) = Some 1"
  by (simp add: handleGeneralRequest_def creditsUsed_def)

lemma credits_streaming:
  "creditsUsed (metadata (fst (handleStreamingRequest e text context s))) = Some 5"
  by (simp add: handleStreamingRequest_result creditsUsed_def)

lemma credits_push: "creditsUsed (ev_metadata (pushCompletedUpdate e tid cid now)) = Some 5"
  by (simp add: pushCompletedUpdate_def creditsUsed_def)

text \<open>
  The shape of every handling of a message with a \<open>parts\<close> array, started when no timer
  is pending: the events that were there, the task, status updates that are not final,
  then one final status update that declares its credits.
\<close>

lemma handled_shape:
  assumes "msg_parts (userMessage context) = Some ps" and t: "timers s = []"
  shows "\<exists>task middle final n.
           published (settle e (execute e context s)) =
             published s @ TaskEvent task # map StatusUpdate middle @ [StatusUpdate final]
           \<and> list_all (\<lambda>u. \<not> ev_final u) middle
           \<and> ev_final final
           \<and> creditsUsed (ev_metadata final) = Some n \<and> 1 \<le> n \<and> n \<le> 5
           \<and> finishedCalls (settle e (execute e context s)) = Suc (finishedCalls s)
           \<and> timers (settle e (execute e context s)) = []"
proof -
  let ?text = "firstPartText ps"
  let ?task = "case existingTask context of Some t \<Rightarrow> t | None \<Rightarrow> submittedTask context (clock s)"
  let ?end = "settle e (execute e context s)"
  have single: "\<exists>task middle final n.
           published ?end = published s @ TaskEvent task # map StatusUpdate middle @ [StatusUpdate final]
           \<and> list_all (\<lambda>u. \<not> ev_final u) middle
           \<and> ev_final final
           \<and> creditsUsed (ev_metadata final) = Some n \<and> 1 \<le> n \<and> n \<le> 5
           \<and> finishedCalls ?end = Suc (finishedCalls s)
           \<and> timers ?end = []"
    if r: "\<And>s'. clock s' = clock s \<Longrightarrow> handleTask e context s' = (Inr (result, False), s')"
      and c: "creditsUsed (metadata result) = Some n" "1 \<le> n" "n \<le> 5"
    for result n
  proof -
    have ex: "execute e context s =
        s\<lparr>published := published s @
             [TaskEvent ?task, StatusUpdate (finalUpdate context result (clock s))],
          finishedCalls := Suc (finishedCalls s)\<rparr>"
      by (rule execute_single_result) (rule r)
    have "timers (execute e context s) = []" unfolding ex using t by simp
    then have st: "?end = execute e context s" by (rule settle_no_timers)
    have "published ?end =
            published s @ TaskEvent ?task # map StatusUpdate []
              @ [StatusUpdate (finalUpdate context result (clock s))]"
      and "finishedCalls ?end = Suc (finishedCalls s)" and "timers ?end = []"
      using t by (simp_all add: ex settle_no_timers)
    moreover have "ev_final (finalUpdate context result (clock s))"
      and "creditsUsed (ev_metadata (finalUpdate context result (clock s))) = Some n"
      using c by (simp_all add: finalUpdate_def)
    moreover have "list_all (\<lambda>u. \<not> ev_final u) []" by simp
    ultimately show ?thesis using c(2,3) by blast
  qed
  note ht = handleTask_with_parts [OF assms(1), of e]
  show ?thesis
  proof (cases "classify ?text")
    case Greeting
    then have "\<And>s'. handleTask e context s' = (Inr (handleGreeting e ?text, False), s')"
      by (simp add: ht handleTask_try_classify)
    then show ?thesis using single [of "handleGreeting e ?text" 1] credits_greeting by simp
  next
    case Calculation
    then have "\<And>s'. handleTask e context s' = (Inr (handleCalculation e ?text, False), s')"
      by (simp add: ht handleTask_try_classify)
    then show ?thesis
      using single [of "handleCalculation e ?text" 1] single [of "handleCalculation e ?text" 2]
        credits_calculation [of e ?text]
      by auto
  next
    case Weather
    then have "\<And>s'. clock s' = clock s \<Longrightarrow>
        handleTask e context s' = (Inr (handleWeatherRequest e (clock s) ?text, False), s')"
      by (simp add: ht handleTask_try_classify)
    then show ?thesis
      using single [of "handleWeatherRequest e (clock s) ?text" 1]
        single [of "handleWeatherRequest e (clock s) ?text" 3]
        credits_weather [of e "clock s" ?text]
      by auto
  next
    case Translation
    show ?thesis
    proof (cases "handleTranslationRequest e ?text")
      case (Inl error)
      then have "\<And>s'. handleTask e context s' = (Inr (processingErrorResult e error, False), s')"
        using Translation by (simp add: ht handleTask_try_classify)
      then show ?thesis
        using single [of "processingErrorResult e error" 1] credits_processing_error by simp
    next
      case (Inr result)
      then have "\<And>s'. handleTask e context s' = (Inr (result, False), s')"
        using Translation by (simp add: ht handleTask_try_classify)
      then show ?thesis
        using single [of result 1] single [of result 4] credits_translation [OF Inr]
        by auto
    qed
  next
    case General
    then have "\<And>s'. handleTask e context s' = (Inr (handleGeneralRequest e ?text, False), s')"
      by (simp add: ht handleTask_try_classify)
    then show ?thesis using single [of "handleGeneralRequest e ?text" 1] credits_general by simp
  next
    case Streaming
    let ?middle = "map (\<lambda>j. workingUpdate (taskId context) (contextId context)
                 (streamingMessageText j 10) (clock s + (j - 1) * 1000)) [1 ..< 11]
               @ [workingUpdate (taskId context) (contextId context) ''Streaming finished!''
                    (clock s + 10000)]"
    let ?final = "finalUpdate context (fst (handleStreamingRequest e ?text context s))
                    (clock s + 10000)"
    note ex = execute_streaming [OF assms(1) Streaming t, of e]
    have "timers (execute e context s) = []" unfolding ex using t by simp
    then have st: "?end = execute e context s" by (rule settle_no_timers)
    have "published ?end = published s @ TaskEvent ?task # map StatusUpdate ?middle @ [StatusUpdate ?final]"
      and "finishedCalls ?end = Suc (finishedCalls s)" and "timers ?end = []"
      using t by (simp_all add: ex settle_no_timers del: upt_Suc)
    moreover have "list_all (\<lambda>u. \<not> ev_final u) ?middle"
      by (simp add: list_all_iff workingUpdate_def del: upt_Suc)
    moreover have "ev_final ?final" and "creditsUsed (ev_metadata ?final) = Some 5"
      by (simp_all add: finalUpdate_def credits_streaming)
    ultimately show ?thesis
      by (intro exI [of _ ?task] exI [of _ ?middle] exI [of _ ?final] exI [of _ 5]) simp
  next
    case PushNotification
    let ?middle = "[workingUpdate (taskId context) (contextId context) pushWaitingText (clock s)]"
    let ?final = "pushCompletedUpdate e (taskId context) (contextId context) (clock s + 10000)"
    note ex = execute_push [OF assms(1) PushNotification t, of e]
    have tm: "timers (execute e context s) =
        [(clock s + 10000, AfterPushConfigWait (taskId context) (contextId context))]"
      unfolding ex by simp
    have "published ?end = published s @ TaskEvent ?task # map StatusUpdate ?middle @ [StatusUpdate ?final]"
      and "finishedCalls ?end = Suc (finishedCalls s)" and "timers ?end = []"
      by (simp_all add: settle_push [OF tm]) (simp_all add: ex)
    moreover have "list_all (\<lambda>u. \<not> ev_final u) ?middle"
      by (simp add: workingUpdate_def)
    moreover have "ev_final ?final" and "creditsUsed (ev_metadata ?final) = Some 5"
      by (simp_all add: credits_push) (simp add: pushCompletedUpdate_def)
    ultimately show ?thesis
      by (intro exI [of _ ?task] exI [of _ ?middle] exI [of _ ?final] exI [of _ 5]) simp
  qed
qed


section \<open>Streaming\<close>

lemma upt_1_11: "[Suc 0 ..< 11] = [1, 2, 3, 4, 5, 6, 7, 8, 9, 10]"
  by code_simp

lemma sample_streaming: "classify ''Start streaming'' = Streaming"
  by code_simp

lemma sample_streaming_parts:
  "msg_parts (userMessage (textRequest ''Start streaming'')) = Some (TextPart ''Start streaming'' # [])"
  by (simp add: textRequest_def)

text \<open>
  Claim C3. For a text routed to the streaming handler, the handler publishes eleven
  status updates that are not final: ten with the texts \<open>Streaming message i/10\<close> for
  \<open>i\<close> from 1 to 10 in this order, one second apart, then one with the text
  \<open>Streaming finished!\<close>. After them the executor publishes one final status update
  that carries the parts and metadata of the handler's completed result, and nothing
  follows it.
\<close>

theorem streaming_eleven_updates_then_final:
  assumes "classify text = Streaming"
    and "msg_parts (userMessage context) = Some (TextPart text # rest)"
  shows "published (snd (handleStreamingRequest e text context initial)) =
           map (\<lambda>i. StatusUpdate
                  \<lparr>ev_taskId = taskId context, ev_contextId = contextId context,
                   ev_state = Working, ev_parts = [TextPart (streamingMessageText i 10)],
                   ev_timestamp = (i - 1) * 1000, ev_final = False, ev_metadata = None\<rparr>)
               [1 ..< 11]
           @ [StatusUpdate
                \<lparr>ev_taskId = taskId context, ev_contextId = contextId context,
                 ev_state = Working, ev_parts = [TextPart ''Streaming finished!''],
                 ev_timestamp = 10000, ev_final = False, ev_metadata = None\<rparr>]
         \<and> map (\<lambda>i. streamingMessageText i 10) [1 ..< 11] =
             [''Streaming message 1/10'', ''Streaming message 2/10'', ''Streaming message 3/10'',
              ''Streaming message 4/10'', ''Streaming message 5/10'', ''Streaming message 6/10'',
              ''Streaming message 7/10'', ''Streaming message 8/10'', ''Streaming message 9/10'',
              ''Streaming message 10/10'']
         \<and> state (fst (handleStreamingRequest e text context initial)) = Some Completed
         \<and> published (run e context) =
             TaskEvent (case existingTask context of
                          Some t \<Rightarrow> t
                        | None \<Rightarrow> submittedTask context 0) #
             published (snd (handleStreamingRequest e text context initial))
             @ [StatusUpdate
                  \<lparr>ev_taskId = taskId context, ev_contextId = contextId context,
                   ev_state = Completed,
                   ev_parts = parts (fst (handleStreamingRequest e text context initial)),
                   ev_timestamp = 10000, ev_final = True,
                   ev_metadata = metadata (fst (handleStreamingRequest e text context initial))\<rparr>]
         \<and> finishedCalls (run e context) = 1
         \<and> timers (run e context) = []"
proof -
  have t: "timers initial = []" by (simp add: initial_def)
  have c: "classify (firstPartText (TextPart text # rest)) = Streaming"
    using assms(1) by simp
  have handler: "published (snd (handleStreamingRequest e text context initial)) =
           map (\<lambda>i. StatusUpdate
                  \<lparr>ev_taskId = taskId context, ev_contextId = contextId context,
                   ev_state = Working, ev_parts = [TextPart (streamingMessageText i 10)],
                   ev_timestamp = (i - 1) * 1000, ev_final = False, ev_metadata = None\<rparr>)
               [1 ..< 11]
           @ [StatusUpdate
                \<lparr>ev_taskId = taskId context, ev_contextId = contextId context,
                 ev_state = Working, ev_parts = [TextPart ''Streaming finished!''],
                 ev_timestamp = 10000, ev_final = False, ev_metadata = None\<rparr>]"
    unfolding handleStreamingRequest_state [OF t]
    by (simp add: initial_def workingUpdate_def del: upt_Suc)
  have completed: "state (fst (handleStreamingRequest e text context initial)) = Some Completed"
    by (simp add: handleStreamingRequest_result)
  have whole: "published (run e context) =
             TaskEvent (case existingTask context of
                          Some t \<Rightarrow> t
                        | None \<Rightarrow> submittedTask context 0) #
             published (snd (handleStreamingRequest e text context initial))
             @ [StatusUpdate
                  \<lparr>ev_taskId = taskId context, ev_contextId = contextId context,
                   ev_state = Completed,
                   ev_parts = parts (fst (handleStreamingRequest e text context initial)),
                   ev_timestamp = 10000, ev_final = True,
                   ev_metadata = metadata (fst (handleStreamingRequest e text context initial))\<rparr>]"
    unfolding handler run_streaming [OF assms(2) c]
    by (simp add: finalUpdate_def workingUpdate_def completed del: upt_Suc)
  have rest: "finishedCalls (run e context) = 1" "timers (run e context) = []"
    by (simp_all add: run_streaming [OF assms(2) c])
  show ?thesis
    using handler streamingTexts completed whole rest by blast
qed

text \<open>The request \<open>Start streaming\<close> of the test client: thirteen events, the last one final.\<close>

theorem streaming_eleven_updates_then_final_witness:
  "classify ''Start streaming'' = Streaming
   \<and> msg_parts (userMessage (textRequest ''Start streaming''))
       = Some (TextPart ''Start streaming'' # [])
   \<and> length (published (run sampleEnv (textRequest ''Start streaming''))) = 13
   \<and> map isFinal (published (run sampleEnv (textRequest ''Start streaming''))) =
       [False, False, False, False, False, False, False, False, False, False, False, False, True]
   \<and> finishedCalls (run sampleEnv (textRequest ''Start streaming'')) = 1"
  using streaming_eleven_updates_then_final [OF sample_streaming sample_streaming_parts, of sampleEnv]
    sample_streaming sample_streaming_parts
  by (simp add: isFinal_def upt_1_11 comp_def)

section \<open>Push notification\<close>

lemma sample_push: "classify ''Testing push notification!'' = PushNotification"
  by code_simp

lemma sample_push_parts:
  "msg_parts (userMessage (textRequest ''Testing push notification!''))
     = Some (TextPart ''Testing push notification!'' # [])"
  by (simp add: textRequest_def)

text \<open>
  Claim C4. For a text routed to the push-notification handler, the result that the
  handler returns has the state \<open>working\<close>, and \<open>execute\<close> returns with no final event
  published: the bus holds the task and one \<open>working\<close> update, and a timer of ten
  seconds is pending. When the timer fires, one final event with the state
  \<open>completed\<close> and \<open>creditsUsed = 5\<close> is published, once, and the stream is finished.
\<close>

theorem push_notification_finalized_in_background:
  assumes "classify text = PushNotification"
    and "msg_parts (userMessage context) = Some (TextPart text # rest)"
  shows "state (fst (handlePushNotificationRequest e text context s)) = Some Working
         \<and> handleTask e context s =
             (Inr (fst (handlePushNotificationRequest e text context s), True),
              snd (handlePushNotificationRequest e text context s))
         \<and> published (execute e context initial) =
             [TaskEvent (case existingTask context of
                           Some t \<Rightarrow> t
                         | None \<Rightarrow> submittedTask context 0),
              StatusUpdate
                \<lparr>ev_taskId = taskId context, ev_contextId = contextId context,
                 ev_state = Working, ev_parts = [TextPart pushWaitingText],
                 ev_timestamp = 0, ev_final = False, ev_metadata = None\<rparr>]
         \<and> finishedCalls (execute e context initial) = 0
         \<and> timers (execute e context initial) =
             [(10000, AfterPushConfigWait (taskId context) (contextId context))]
         \<and> published (run e context) =
             published (execute e context initial)
             @ [StatusUpdate
                  \<lparr>ev_taskId = taskId context, ev_contextId = contextId context,
                   ev_state = Completed,
                   ev_parts = [TextPart ''Push notification task completed!''],
                   ev_timestamp = 10000, ev_final = True,
                   ev_metadata =
                     Some [(''completed'', JBool True),
                           (''creditsUsed'', JNum 5),
                           (''planId'', JStr (planId e)),
                           (''costDescription'', JStr ''Push notification task completed''),
                           (''operationType'', JStr ''push_notification'')]\<rparr>]
         \<and> finishedCalls (run e context) = 1
         \<and> timers (run e context) = []"
proof -
  have c: "classify (firstPartText (TextPart text # rest)) = PushNotification"
    using assms(1) by simp
  have working: "state (fst (handlePushNotificationRequest e text context s)) = Some Working"
    by (simp add: handlePushNotificationRequest_eq)
  have ht: "handleTask e context s =
             (Inr (fst (handlePushNotificationRequest e text context s), True),
              snd (handlePushNotificationRequest e text context s))"
    using classify_PushNotification [OF assms(1)]
    by (simp add: handleTask_def assms(2) handleTask_try_def case_prod_beta)
  have sync: "published (execute e context initial) =
             [TaskEvent (case existingTask context of
                           Some t \<Rightarrow> t
                         | None \<Rightarrow> submittedTask context 0),
              StatusUpdate
                \<lparr>ev_taskId = taskId context, ev_contextId = contextId context,
                 ev_state = Working, ev_parts = [TextPart pushWaitingText],
                 ev_timestamp = 0, ev_final = False, ev_metadata = None\<rparr>]"
    "finishedCalls (execute e context initial) = 0"
    "timers (execute e context initial) =
             [(10000, AfterPushConfigWait (taskId context) (contextId context))]"
    by (simp_all add: run_push(1) [OF assms(2) c] workingUpdate_def)
  have later: "published (run e context) =
             published (execute e context initial)
             @ [StatusUpdate
                  \<lparr>ev_taskId = taskId context, ev_contextId = contextId context,
                   ev_state = Completed,
                   ev_parts = [TextPart ''Push notification task completed!''],
                   ev_timestamp = 10000, ev_final = True,
                   ev_metadata =
                     Some [(''completed'', JBool True),
                           (''creditsUsed'', JNum 5),
                           (''planId'', JStr (planId e)),
                           (''costDescription'', JStr ''Push notification task completed''),
                           (''operationType'', JStr ''push_notification'')]\<rparr>]"
    "finishedCalls (run e context) = 1"
    "timers (run e context) = []"
    by (simp_all add: run_push [OF assms(2) c] pushCompletedUpdate_def)
  show ?thesis
    using working ht sync later by blast
qed

text \<open>The request \<open>Testing push notification!\<close> of the test client.\<close>

theorem push_notification_finalized_in_background_witness:
  "classify ''Testing push notification!'' = PushNotification
   \<and> msg_parts (userMessage (textRequest ''Testing push notification!''))
       = Some (TextPart ''Testing push notification!'' # [])
   \<and> map isFinal (published (execute sampleEnv (textRequest ''Testing push notification!'') initial))
       = [False, False]
   \<and> map isFinal (published (run sampleEnv (textRequest ''Testing push notification!'')))
       = [False, False, True]
   \<and> finishedCalls (run sampleEnv (textRequest ''Testing push notification!'')) = 1"
  using push_notification_finalized_in_background
          [OF sample_push sample_push_parts, of sampleEnv initial]
    sample_push sample_push_parts
  by (simp add: isFinal_def)

section \<open>Final events\<close>

lemma sample_without_parts: "msg_parts (userMessage requestWithoutParts) = None"
  by (simp add: requestWithoutParts_def)

text \<open>
  Claim C1 does not hold of the code on the outer error path. A user message without a
  \<open>parts\<close> array makes \<open>handleTask\<close> throw before its own \<open>try\<close>; the \<open>catch\<close> of \<open>execute\<close>
  publishes a final event whose metadata is present and has an \<open>errorType\<close> but no
  \<open>creditsUsed\<close>. The \<open>catch\<close> of \<open>handleTask\<close>, which takes what is thrown inside its
  \<open>try\<close>, declares one credit for the same error.
\<close>

theorem outer_catch_final_event_lacks_credits:
  "published (run sampleEnv requestWithoutParts) =
     [TaskEvent (submittedTask requestWithoutParts 0),
      StatusUpdate
        \<lparr>ev_taskId = ''task-1'', ev_contextId = ''context-1'', ev_state = Failed,
         ev_parts = [TextPart (''Agent error: '' @ missingPartsMessage)],
         ev_timestamp = 0, ev_final = True,
         ev_metadata = Some [(''errorType'', JStr ''agent_error'')]\<rparr>]
   \<and> map_of [(''errorType'', JStr ''agent_error'')] ''creditsUsed'' = None
   \<and> creditsUsed (Some [(''errorType'', JStr ''agent_error'')]) = None
   \<and> creditsUsed
        (metadata (processingErrorResult sampleEnv (ErrorInstance missingPartsMessage)))
       = Some 1"
  unfolding run_without_parts [OF sample_without_parts]
  by (simp add: errorUpdate_def requestWithoutParts_def creditsUsed_def
        processingErrorResult_def)

text \<open>
  Every other path declares its credits: when the user message has a \<open>parts\<close> array,
  each final status update that the handling of the request publishes, from \<open>execute\<close> or
  from the background finalization of a push notification, has \<open>creditsUsed\<close> bound to
  an integer from 1 to 5.
\<close>

lemma other_final_events_declare_credits:
  assumes "msg_parts (userMessage context) = Some ps" and "timers s = []"
  shows "\<forall>u. StatusUpdate u
                \<in> set (drop (length (published s))
                         (published (settle e (execute e context s))))
              \<and> ev_final u \<longrightarrow>
           (\<exists>m n. ev_metadata u = Some m \<and> map_of m ''creditsUsed'' = Some (JNum n)
                  \<and> 1 \<le> n \<and> n \<le> 5)"
proof -
  obtain task middle final n where
    shape: "published (settle e (execute e context s)) =
              published s @ TaskEvent task # map StatusUpdate middle @ [StatusUpdate final]"
    and middle: "list_all (\<lambda>u. \<not> ev_final u) middle"
    and final: "ev_final final" "creditsUsed (ev_metadata final) = Some n" "1 \<le> n" "n \<le> 5"
    using handled_shape [OF assms, of e] by blast
  have credits: "\<exists>m. ev_metadata final = Some m \<and> map_of m ''creditsUsed'' = Some (JNum n)"
    using final(2)
    by (auto simp add: creditsUsed_def split: option.splits jsval.splits)
  show ?thesis
  proof (intro allI impI)
    fix u
    assume u: "StatusUpdate u
                 \<in> set (drop (length (published s))
                          (published (settle e (execute e context s))))
               \<and> ev_final u"
    then have "u \<in> set middle \<or> u = final"
      unfolding shape by auto
    then have "u = final"
      using u middle by (auto simp add: list_all_iff)
    then show "\<exists>m n. ev_metadata u = Some m \<and> map_of m ''creditsUsed'' = Some (JNum n)
                  \<and> 1 \<le> n \<and> n \<le> 5"
      using credits final(3,4) by blast
  qed
qed











end
